theory Spec2Isabelle
  imports Main "HOL-Library.Sublist"
begin

section \<open>Domain classification (src/src/classify.ts)\<close>

text \<open>
  JavaScript strings are modelled as \<open>string\<close>, one \<open>char\<close> per code unit, so the
  model covers strings whose code units are below 256. Hostnames produced by
  \<^verbatim>\<open>new URL(url).hostname\<close> are ASCII. A value of type \<^verbatim>\<open>string | null\<close> is a
  \<open>string option\<close>; JavaScript's falsy strings are \<open>None\<close> and \<open>Some []\<close>.
\<close>

datatype classification = Productive | Unproductive

definition UNPRODUCTIVE_DOMAINS :: "string list" where
  "UNPRODUCTIVE_DOMAINS = [''youtube.com'', ''tiktok.com'', ''instagram.com'']"

text \<open>\<^verbatim>\<open>String.prototype.toLowerCase\<close> on code units below 256: A-Z and the
  Latin-1 capitals (U+00C0 to U+00DE without U+00D7) move up by 32.\<close>

definition toLowerChar :: "char \<Rightarrow> char" where
  "toLowerChar c =
     (let n = (of_char c :: nat)
      in if (65 \<le> n \<and> n \<le> 90) \<or> (192 \<le> n \<and> n \<le> 222 \<and> n \<noteq> 215)
         then char_of (n + 32) else c)"

definition toLowerCase :: "string \<Rightarrow> string" where
  "toLowerCase s = map toLowerChar s"

text \<open>\<^verbatim>\<open>s.replace(/^www\./, '')\<close>: one leading \<^verbatim>\<open>www.\<close> is removed.\<close>

definition stripWww :: "string \<Rightarrow> string" where
  "stripWww s = (if take 4 s = ''www.'' then drop 4 s else s)"

text \<open>\<^verbatim>\<open>s.endsWith(t)\<close>.\<close>

definition endsWith :: "string \<Rightarrow> string \<Rightarrow> bool" where
  "endsWith s t = (length t \<le> length s \<and> drop (length s - length t) s = t)"

text \<open>The \<^verbatim>\<open>for ... of\<close> loop of \<^verbatim>\<open>classifyDomain\<close>, with its early return.\<close>

fun denylistLoop :: "string \<Rightarrow> string list \<Rightarrow> bool" where
  "denylistLoop normalizedDomain [] = False"
| "denylistLoop normalizedDomain (unproductiveDomain # rest) =
     (if normalizedDomain = unproductiveDomain
         \<or> endsWith normalizedDomain (''.'' @ unproductiveDomain)
      then True
      else denylistLoop normalizedDomain rest)"

definition classifyDomain :: "string option \<Rightarrow> classification option" where
  "classifyDomain domain =
     (case domain of
        None \<Rightarrow> None
      | Some d \<Rightarrow>
          if d = [] then None
          else
            let normalizedDomain = stripWww (toLowerCase d)
            in if denylistLoop normalizedDomain UNPRODUCTIVE_DOMAINS
               then Some Unproductive
               else Some Productive)"

section \<open>The counter store (src/src/storage.ts)\<close>

datatype theme = Light | Dark

text \<open>
  \<^verbatim>\<open>TrackingState\<close>. Times and counters are JavaScript numbers holding integers
  (milliseconds). \<open>lastCallTriggerTime\<close> is not declared by the interface and is absent
  from \<^verbatim>\<open>DEFAULT_STATE\<close>, but src/src/background.ts reads and writes it through
  the same object; it is \<open>None\<close> while the property is absent.
\<close>

record TrackingState =
  currentDomain :: "string option"
  lastTick :: int
  consecutiveProductiveMs :: int
  unproductiveMsBuffer :: int
  totalProductiveMs :: int
  totalUnproductiveMs :: int
  userId :: "string option"
  theme :: theme
  lastLeaderboardUpdate :: int
  lastCallTriggerTime :: "int option"

text \<open>\<^verbatim>\<open>Partial<TrackingState>\<close>: a field is \<open>None\<close> when the update does not
  name it.\<close>

record TrackingUpdate =
  u_currentDomain :: "string option option"
  u_lastTick :: "int option"
  u_consecutiveProductiveMs :: "int option"
  u_unproductiveMsBuffer :: "int option"
  u_totalProductiveMs :: "int option"
  u_totalUnproductiveMs :: "int option"
  u_userId :: "string option option"
  u_theme :: "theme option"
  u_lastLeaderboardUpdate :: "int option"
  u_lastCallTriggerTime :: "int option"

definition noUpdates :: TrackingUpdate where
  "noUpdates =
     \<lparr> u_currentDomain = None, u_lastTick = None, u_consecutiveProductiveMs = None,
       u_unproductiveMsBuffer = None, u_totalProductiveMs = None,
       u_totalUnproductiveMs = None, u_userId = None, u_theme = None,
       u_lastLeaderboardUpdate = None, u_lastCallTriggerTime = None \<rparr>"

text \<open>The side effects the background process sends out, in the order sent.\<close>

datatype effect =
    ProductiveTriggerInsert string string int
  | LeaderboardScoreInsert string int
  | LeaderboardGlobalUpsert string int
  | TwilioCallRequest

text \<open>
  Everything the operations read and write besides their arguments: the content of
  \<^verbatim>\<open>chrome.storage.local\<close> under \<^verbatim>\<open>trackingState\<close>, the value
  \<^verbatim>\<open>Date.now()\<close> had when storage.ts built \<^verbatim>\<open>DEFAULT_STATE\<close>, the two module
  flags of background.ts, and the requests sent so far.
\<close>

record world =
  stored :: "TrackingState option"
  defaultLastTick :: int
  isIdle :: bool
  isWindowFocused :: bool
  effects :: "effect list"

definition DEFAULT_STATE :: "int \<Rightarrow> TrackingState" where
  "DEFAULT_STATE t0 =
     \<lparr> currentDomain = None, lastTick = t0, consecutiveProductiveMs = 0,
       unproductiveMsBuffer = 0, totalProductiveMs = 0, totalUnproductiveMs = 0,
       userId = None, theme = Light, lastLeaderboardUpdate = 0,
       lastCallTriggerTime = None \<rparr>"

definition getTrackingState :: "world \<Rightarrow> TrackingState" where
  "getTrackingState w =
     (case stored w of
        Some s \<Rightarrow> s
      | None \<Rightarrow> DEFAULT_STATE (defaultLastTick w))"

definition setTrackingState :: "TrackingState \<Rightarrow> world \<Rightarrow> world" where
  "setTrackingState state w = w\<lparr>stored := Some state\<rparr>"

text \<open>The object spread \<^verbatim>\<open>{ ...current, ...updates }\<close>.\<close>

definition spread :: "TrackingState \<Rightarrow> TrackingUpdate \<Rightarrow> TrackingState" where
  "spread current updates =
     \<lparr> currentDomain =
         (case u_currentDomain updates of Some v \<Rightarrow> v | None \<Rightarrow> currentDomain current),
       lastTick =
         (case u_lastTick updates of Some v \<Rightarrow> v | None \<Rightarrow> lastTick current),
       consecutiveProductiveMs =
         (case u_consecutiveProductiveMs updates of
            Some v \<Rightarrow> v | None \<Rightarrow> consecutiveProductiveMs current),
       unproductiveMsBuffer =
         (case u_unproductiveMsBuffer updates of
            Some v \<Rightarrow> v | None \<Rightarrow> unproductiveMsBuffer current),
       totalProductiveMs =
         (case u_totalProductiveMs updates of
            Some v \<Rightarrow> v | None \<Rightarrow> totalProductiveMs current),
       totalUnproductiveMs =
         (case u_totalUnproductiveMs updates of
            Some v \<Rightarrow> v | None \<Rightarrow> totalUnproductiveMs current),
       userId =
         (case u_userId updates of Some v \<Rightarrow> v | None \<Rightarrow> userId current),
       theme =
         (case u_theme updates of Some v \<Rightarrow> v | None \<Rightarrow> theme current),
       lastLeaderboardUpdate =
         (case u_lastLeaderboardUpdate updates of
            Some v \<Rightarrow> v | None \<Rightarrow> lastLeaderboardUpdate current),
       lastCallTriggerTime =
         (case u_lastCallTriggerTime updates of
            Some v \<Rightarrow> Some v | None \<Rightarrow> lastCallTriggerTime current) \<rparr>"

definition updateTrackingState :: "TrackingUpdate \<Rightarrow> world \<Rightarrow> TrackingState \<times> world" where
  "updateTrackingState updates w =
     (let current = getTrackingState w;
          updated = spread current updates
      in (updated, setTrackingState updated w))"

section \<open>The background process (src/src/background.ts)\<close>

text \<open>
  src/src/background.ts holds two variants of the background process, one after the
  other. A function of the first variant (lines 1 to 496) carries the suffix \<open>_v1\<close>,
  a function of the second (lines 497 to 1146) the suffix \<open>_v2\<close>; a function whose
  body is the same in both carries none. Each operation is modelled as it runs from
  its first statement to its last, with no other operation in between; every value
  it reads from outside (a clock reading, the active tab, a reply of the network) is
  an argument.
\<close>

definition PRODUCTIVE_TRIGGER_MS :: int where
  "PRODUCTIVE_TRIGGER_MS = 60000"

definition UNPRODUCTIVE_BUFFER_MS :: int where
  "UNPRODUCTIVE_BUFFER_MS = 10000"

definition LEADERBOARD_UPDATE_INTERVAL_MS :: int where
  "LEADERBOARD_UPDATE_INTERVAL_MS = 60000"

definition AI_CALL_TRIGGER_MS :: int where
  "AI_CALL_TRIGGER_MS = 120000"

definition AI_CALL_COOLDOWN_MS :: int where
  "AI_CALL_COOLDOWN_MS = 300000"

text \<open>\<^verbatim>\<open>x || 0\<close> on a number that is not NaN.\<close>

definition orZero :: "int \<Rightarrow> int" where
  "orZero x = (if x = 0 then 0 else x)"

definition emit :: "effect \<Rightarrow> world \<Rightarrow> world" where
  "emit e w = w\<lparr>effects := effects w @ [e]\<rparr>"

text \<open>The two inserts. A failed insert is caught and logged; the request is the effect.\<close>

definition recordProductiveTrigger :: "string \<Rightarrow> int \<Rightarrow> string \<Rightarrow> world \<Rightarrow> world" where
  "recordProductiveTrigger domain durationMs uid w =
     (let durationSeconds = durationMs div 1000
      in emit (ProductiveTriggerInsert uid domain durationSeconds) w)"

definition recordUnproductiveTime :: "int \<Rightarrow> string \<Rightarrow> world \<Rightarrow> world" where
  "recordUnproductiveTime ms uid w =
     (let seconds = ms div 1000
      in emit (LeaderboardScoreInsert uid seconds) w)"

subsection \<open>updateDomain\<close>

text \<open>First variant, lines 85 to 115. \<open>dateNow\<close> is the reading of line 111.\<close>

definition updateDomain_v1 :: "string option \<Rightarrow> int \<Rightarrow> world \<Rightarrow> world" where
  "updateDomain_v1 newDomain dateNow w =
     (let state = getTrackingState w
      in if currentDomain state = newDomain then w
         else
           let w1 =
                 (case (currentDomain state, userId state) of
                    (Some cur, Some uid) \<Rightarrow>
                      if cur \<noteq> [] \<and> uid \<noteq> [] then
                        let previousClassification = classifyDomain (currentDomain state)
                        in if previousClassification = Some Productive
                              \<and> consecutiveProductiveMs state > 0
                           then
                             (if consecutiveProductiveMs state \<ge> PRODUCTIVE_TRIGGER_MS
                              then recordProductiveTrigger cur
                                     (consecutiveProductiveMs state) uid w
                              else w)
                           else if previousClassification = Some Unproductive
                              \<and> unproductiveMsBuffer state > 0
                           then recordUnproductiveTime (unproductiveMsBuffer state) uid w
                           else w
                      else w
                  | _ \<Rightarrow> w);
               newClassification = classifyDomain newDomain
           in snd (updateTrackingState
                 (noUpdates
                    \<lparr> u_currentDomain := Some newDomain,
                      u_lastTick := Some dateNow,
                      u_consecutiveProductiveMs :=
                        Some (if newClassification = Some Productive then 0
                              else consecutiveProductiveMs state),
                      u_unproductiveMsBuffer :=
                        Some (if newClassification = Some Unproductive then 0
                              else unproductiveMsBuffer state) \<rparr>)
                 w1))"

text \<open>Second variant, lines 567 to 616. \<open>dateNow\<close> is the reading of line 603.\<close>

definition updateDomain_v2 :: "string option \<Rightarrow> int \<Rightarrow> world \<Rightarrow> world" where
  "updateDomain_v2 newDomain dateNow w =
     (let state = getTrackingState w
      in if currentDomain state = newDomain then w
         else
           let previousClassification = classifyDomain (currentDomain state);
               newClassification = classifyDomain newDomain;
               w1 =
                 (case (currentDomain state, userId state) of
                    (Some cur, Some uid) \<Rightarrow>
                      if cur \<noteq> [] \<and> uid \<noteq> [] then
                        if previousClassification = Some Productive
                           \<and> consecutiveProductiveMs state \<ge> PRODUCTIVE_TRIGGER_MS
                        then recordProductiveTrigger cur (consecutiveProductiveMs state) uid w
                        else if previousClassification = Some Unproductive
                           \<and> unproductiveMsBuffer state \<ge> UNPRODUCTIVE_BUFFER_MS
                        then recordUnproductiveTime (unproductiveMsBuffer state) uid w
                        else w
                      else w
                  | _ \<Rightarrow> w);
               shouldResetProductive =
                 (previousClassification = Some Productive
                  \<and> newClassification = Some Unproductive);
               shouldResetUnproductive =
                 (previousClassification = Some Unproductive
                  \<and> newClassification = Some Productive)
           in snd (updateTrackingState
                 (noUpdates
                    \<lparr> u_currentDomain := Some newDomain,
                      u_lastTick := Some dateNow,
                      u_consecutiveProductiveMs :=
                        Some (if shouldResetProductive then 0
                              else consecutiveProductiveMs state),
                      u_unproductiveMsBuffer :=
                        Some (if shouldResetUnproductive then 0
                              else unproductiveMsBuffer state) \<rparr>)
                 w1))"

subsection \<open>triggerAICall\<close>

text \<open>
  What \<^verbatim>\<open>fetch\<close> and \<^verbatim>\<open>response.json()\<close> do with the request: \<^verbatim>\<open>fetch\<close>
  throws, the response is not ok, the response is ok but its body cannot be read, or
  the call is accepted. The body of the request (numbers, credentials, webhook) is
  built from constants of src/src/env.ts that are not part of the sources and is not
  modelled.
\<close>

datatype fetch_result = FetchThrows | ResponseNotOk | ResponseOkBodyThrows | ResponseOk

text \<open>First variant, lines 155 to 214. \<open>dateNow\<close> is the reading of line 158.\<close>

definition triggerAICall_v1 :: "int \<Rightarrow> fetch_result \<Rightarrow> world \<Rightarrow> world" where
  "triggerAICall_v1 dateNow response w =
     (let state = getTrackingState w
      in if (case lastCallTriggerTime state of
               Some l \<Rightarrow> l > 0 \<and> dateNow - l < AI_CALL_COOLDOWN_MS
             | None \<Rightarrow> False)
         then w
         else
           let w1 = emit TwilioCallRequest w
           in case response of
                FetchThrows \<Rightarrow> w1
              | ResponseNotOk \<Rightarrow> w1
              | ResponseOkBodyThrows \<Rightarrow> w1
              | ResponseOk \<Rightarrow>
                  snd (updateTrackingState
                         (noUpdates\<lparr>u_lastCallTriggerTime := Some dateNow\<rparr>) w1))"

text \<open>The reply of the \<^verbatim>\<open>profiles\<close> table: an error or no row, or a row with its
  \<^verbatim>\<open>dads_number\<close> column.\<close>

datatype profile_result = ProfileError | ProfileRow "string option"

text \<open>\<^verbatim>\<open>!s.trim()\<close> on code units below 256: every character is white space.\<close>

definition isWhiteSpace :: "char \<Rightarrow> bool" where
  "isWhiteSpace c = ((of_char c :: nat) \<in> {9, 10, 11, 12, 13, 32, 160})"

definition trimIsEmpty :: "string \<Rightarrow> bool" where
  "trimIsEmpty s = list_all isWhiteSpace s"

text \<open>
  Second variant, lines 655 to 789. \<open>configured\<close> says that both configuration guards
  (lines 660 and 665, on constants of src/src/env.ts) let the call through; \<open>dateNow\<close>
  is the reading of line 772.
\<close>

definition triggerAICall_v2 ::
  "bool \<Rightarrow> profile_result \<Rightarrow> fetch_result \<Rightarrow> int \<Rightarrow> world \<Rightarrow> world" where
  "triggerAICall_v2 configured profileReply response dateNow w =
     (if \<not> configured then w
      else
        let state = getTrackingState w
        in (case userId state of
             None \<Rightarrow> w
           | Some uid \<Rightarrow>
               if uid = [] then w
               else
                 (case profileReply of
                    ProfileError \<Rightarrow> w
                  | ProfileRow None \<Rightarrow> w
                  | ProfileRow (Some dadsNumber) \<Rightarrow>
                      if dadsNumber = [] \<or> trimIsEmpty dadsNumber then w
                      else
                        let w1 = emit TwilioCallRequest w
                        in (case response of
                              FetchThrows \<Rightarrow> w1
                            | ResponseNotOk \<Rightarrow> w1
                            | ResponseOkBodyThrows \<Rightarrow> w1
                            | ResponseOk \<Rightarrow>
                                snd (updateTrackingState
                                       (noUpdates
                                          \<lparr> u_lastCallTriggerTime := Some dateNow,
                                            u_consecutiveProductiveMs := Some 0,
                                            u_totalProductiveMs := Some 0 \<rparr>)
                                       w1)))))"

subsection \<open>tick and processTime\<close>

text \<open>
  What one tick reads from outside: the clock at its start (\<open>tickNow\<close>), the host
  name of the active tab (\<^verbatim>\<open>extractDomain(await getActiveTabUrl())\<close>), and the
  clock readings and network replies of the operations it may call.
\<close>

record tick_env =
  tickNow :: int
  activeDomain :: "string option"
  switchNow :: int
  callNow :: int
  processNow :: int
  twilioConfigured :: bool
  profileReply :: profile_result
  fetchReply :: fetch_result

text \<open>First variant, lines 304 to 362.\<close>

definition processTime_v1 :: "TrackingState \<Rightarrow> int \<Rightarrow> tick_env \<Rightarrow> world \<Rightarrow> world" where
  "processTime_v1 state elapsed env w =
     (let classification = classifyDomain (currentDomain state);
          onlyTick = snd (updateTrackingState
                            (noUpdates\<lparr>u_lastTick := Some (processNow env)\<rparr>) w)
      in case (userId state, currentDomain state) of
           (Some uid, Some cur) \<Rightarrow>
             if uid = [] \<or> cur = [] then onlyTick
             else if classification = Some Productive then
               let newConsecutive = consecutiveProductiveMs state + elapsed;
                   newTotal = orZero (totalProductiveMs state) + elapsed;
                   w1 = (if newConsecutive \<ge> AI_CALL_TRIGGER_MS
                            \<and> newConsecutive - elapsed < AI_CALL_TRIGGER_MS
                         then triggerAICall_v1 (callNow env) (fetchReply env) w
                         else w)
               in if newConsecutive \<ge> PRODUCTIVE_TRIGGER_MS then
                    snd (updateTrackingState
                           (noUpdates
                              \<lparr> u_consecutiveProductiveMs := Some 0,
                                u_totalProductiveMs := Some newTotal,
                                u_lastTick := Some (processNow env) \<rparr>)
                           (recordProductiveTrigger cur newConsecutive uid w1))
                  else
                    snd (updateTrackingState
                           (noUpdates
                              \<lparr> u_consecutiveProductiveMs := Some newConsecutive,
                                u_totalProductiveMs := Some newTotal,
                                u_lastTick := Some (processNow env) \<rparr>)
                           w1)
             else if classification = Some Unproductive then
               let newBuffer = unproductiveMsBuffer state + elapsed;
                   newTotal = orZero (totalUnproductiveMs state) + elapsed
               in if newBuffer \<ge> UNPRODUCTIVE_BUFFER_MS then
                    snd (updateTrackingState
                           (noUpdates
                              \<lparr> u_unproductiveMsBuffer := Some 0,
                                u_totalUnproductiveMs := Some newTotal,
                                u_lastTick := Some (processNow env) \<rparr>)
                           (recordUnproductiveTime newBuffer uid w))
                  else
                    snd (updateTrackingState
                           (noUpdates
                              \<lparr> u_unproductiveMsBuffer := Some newBuffer,
                                u_totalUnproductiveMs := Some newTotal,
                                u_lastTick := Some (processNow env) \<rparr>)
                           w)
             else onlyTick
         | _ \<Rightarrow> onlyTick)"

text \<open>Second variant, lines 904 to 993.\<close>

definition processTime_v2 :: "TrackingState \<Rightarrow> int \<Rightarrow> tick_env \<Rightarrow> world \<Rightarrow> world" where
  "processTime_v2 state elapsed env w =
     (let classification = classifyDomain (currentDomain state);
          onlyTick = snd (updateTrackingState
                            (noUpdates\<lparr>u_lastTick := Some (processNow env)\<rparr>) w)
      in case (userId state, currentDomain state) of
           (Some uid, Some cur) \<Rightarrow>
             if uid = [] \<or> cur = [] then onlyTick
             else if classification = Some Productive then
               let newConsecutive = consecutiveProductiveMs state + elapsed;
                   newTotal = orZero (totalProductiveMs state) + elapsed;
                   previousConsecutive = consecutiveProductiveMs state;
                   hasReachedThreshold = (newConsecutive \<ge> AI_CALL_TRIGGER_MS);
                   wasBelowThreshold = (previousConsecutive < AI_CALL_TRIGGER_MS);
                   w1 = (if hasReachedThreshold \<and> wasBelowThreshold
                         then triggerAICall_v2 (twilioConfigured env) (profileReply env)
                                (fetchReply env) (callNow env) w
                         else w);
                   w2 = (if newConsecutive \<ge> PRODUCTIVE_TRIGGER_MS
                            \<and> previousConsecutive < PRODUCTIVE_TRIGGER_MS
                         then recordProductiveTrigger cur newConsecutive uid w1
                         else w1)
               in snd (updateTrackingState
                         (noUpdates
                            \<lparr> u_consecutiveProductiveMs := Some newConsecutive,
                              u_totalProductiveMs := Some newTotal,
                              u_lastTick := Some (processNow env) \<rparr>)
                         w2)
             else if classification = Some Unproductive then
               let newBuffer = unproductiveMsBuffer state + elapsed;
                   newTotal = orZero (totalUnproductiveMs state) + elapsed
               in if newBuffer \<ge> UNPRODUCTIVE_BUFFER_MS then
                    snd (updateTrackingState
                           (noUpdates
                              \<lparr> u_unproductiveMsBuffer := Some 0,
                                u_totalUnproductiveMs := Some newTotal,
                                u_lastTick := Some (processNow env) \<rparr>)
                           (recordUnproductiveTime newBuffer uid w))
                  else
                    snd (updateTrackingState
                           (noUpdates
                              \<lparr> u_unproductiveMsBuffer := Some newBuffer,
                                u_totalUnproductiveMs := Some newTotal,
                                u_lastTick := Some (processNow env) \<rparr>)
                           w)
             else onlyTick
         | _ \<Rightarrow> onlyTick)"

text \<open>First variant, lines 267 to 299.\<close>

definition tick_v1 :: "tick_env \<Rightarrow> world \<Rightarrow> world" where
  "tick_v1 env w =
     (if isIdle w \<or> \<not> isWindowFocused w then
        snd (updateTrackingState (noUpdates\<lparr>u_lastTick := Some (tickNow env)\<rparr>) w)
      else
        let state = getTrackingState w;
            now = tickNow env;
            elapsed = now - lastTick state
        in if elapsed \<le> 0 then
             snd (updateTrackingState (noUpdates\<lparr>u_lastTick := Some now\<rparr>) w)
           else
             let observed = activeDomain env
             in if observed \<noteq> currentDomain state then
                  let w1 = updateDomain_v1 observed (switchNow env) w;
                      updatedState = getTrackingState w1
                  in processTime_v1 updatedState elapsed env w1
                else processTime_v1 state elapsed env w)"

text \<open>Second variant, lines 843 to 899.\<close>

definition tick_v2 :: "tick_env \<Rightarrow> world \<Rightarrow> world" where
  "tick_v2 env w =
     (let state = getTrackingState w;
          now = tickNow env;
          elapsed = now - lastTick state;
          maxElapsed = 10000;
          actualElapsed = (if elapsed > maxElapsed then maxElapsed else elapsed)
      in if actualElapsed \<le> 0 then
           snd (updateTrackingState (noUpdates\<lparr>u_lastTick := Some now\<rparr>) w)
         else
           let shouldPause = (isIdle w \<and> \<not> isWindowFocused w)
           in if shouldPause then
                snd (updateTrackingState (noUpdates\<lparr>u_lastTick := Some now\<rparr>) w)
              else
                let observed = activeDomain env
                in if observed \<noteq> currentDomain state then
                     let w1 = updateDomain_v2 observed (switchNow env) w;
                         updatedState = getTrackingState w1
                     in processTime_v2 updatedState actualElapsed env w1
                   else processTime_v2 state actualElapsed env w)"

subsection \<open>The leaderboard sync\<close>

text \<open>
  \<^verbatim>\<open>updateLeaderboard\<close> (lines 219 to 262 and 794 to 837, the same text).
  \<open>profileFound\<close> says that the \<^verbatim>\<open>profiles\<close> row of the user was read without
  error. The upserted row is \<^verbatim>\<open>user_id\<close>, \<^verbatim>\<open>best_score\<close> and a timestamp.
\<close>

definition updateLeaderboard :: "string \<Rightarrow> int \<Rightarrow> bool \<Rightarrow> world \<Rightarrow> world" where
  "updateLeaderboard uid totalUnproductive profileFound w =
     (if \<not> profileFound then w
      else
        let unproductiveSeconds = totalUnproductive div 1000
        in emit (LeaderboardGlobalUpsert uid unproductiveSeconds) w)"

text \<open>\<^verbatim>\<open>checkAndUpdateLeaderboard\<close> (lines 367 to 387 and 998 to 1018, the same
  text). \<open>now\<close> is the reading of line 369.\<close>

definition checkAndUpdateLeaderboard :: "int \<Rightarrow> bool \<Rightarrow> world \<Rightarrow> world" where
  "checkAndUpdateLeaderboard now profileFound w =
     (let state = getTrackingState w
      in case userId state of
           None \<Rightarrow> w
         | Some uid \<Rightarrow>
             if uid = [] then w
             else
               let timeSinceLastUpdate = now - orZero (lastLeaderboardUpdate state)
               in if timeSinceLastUpdate \<ge> LEADERBOARD_UPDATE_INTERVAL_MS then
                    snd (updateTrackingState
                           (noUpdates\<lparr>u_lastLeaderboardUpdate := Some now\<rparr>)
                           (updateLeaderboard uid (orZero (totalUnproductiveMs state))
                              profileFound w))
                  else w)"

section \<open>Vocabulary of the statements\<close>

text \<open>JavaScript truthiness of a \<^verbatim>\<open>string | null\<close>: neither \<^verbatim>\<open>null\<close> nor empty.\<close>

definition truthy :: "string option \<Rightarrow> bool" where
  "truthy x = (case x of None \<Rightarrow> False | Some v \<Rightarrow> v \<noteq> [])"

text \<open>How many call requests have been sent.\<close>

definition callRequests :: "world \<Rightarrow> nat" where
  "callRequests w = length (filter (\<lambda>e. e = TwilioCallRequest) (effects w))"

text \<open>
  The call log of a run of ticks of the first variant: for every tick that sent a
  call request, the clock reading \<^verbatim>\<open>triggerAICall\<close> took and the reply it got.
\<close>

fun callLog_v1 :: "tick_env list \<Rightarrow> world \<Rightarrow> (int \<times> fetch_result) list" where
  "callLog_v1 [] w = []"
| "callLog_v1 (env # envs) w =
     (if callRequests (tick_v1 env w) > callRequests w
      then [(callNow env, fetchReply env)] else [])
     @ callLog_v1 envs (tick_v1 env w)"

text \<open>The same log for a run of ticks of the second variant.\<close>

fun callLog_v2 :: "tick_env list \<Rightarrow> world \<Rightarrow> (int \<times> fetch_result) list" where
  "callLog_v2 [] w = []"
| "callLog_v2 (env # envs) w =
     (if callRequests (tick_v2 env w) > callRequests w
      then [(callNow env, fetchReply env)] else [])
     @ callLog_v2 envs (tick_v2 env w)"

text \<open>A call log respects the cooldown when every request that follows an accepted
  one comes at least 300000 ms after it.\<close>

fun cooldownRespected :: "(int \<times> fetch_result) list \<Rightarrow> bool" where
  "cooldownRespected [] = True"
| "cooldownRespected ((t, r) # rest) =
     ((r = ResponseOk \<longrightarrow> (\<forall>(t', r') \<in> set rest. t' - t \<ge> 300000))
      \<and> cooldownRespected rest)"

text \<open>
  A concrete situation used by the examples: a signed-in user on a productive site,
  40 s into a productive streak, the window focused, the last tick at 1000000 ms.
\<close>

definition exampleState :: TrackingState where
  "exampleState =
     \<lparr> currentDomain = Some ''github.com'', lastTick = 1000000,
       consecutiveProductiveMs = 40000, unproductiveMsBuffer = 3000,
       totalProductiveMs = 5000, totalUnproductiveMs = 7000,
       userId = Some ''u1'', theme = Dark, lastLeaderboardUpdate = 900000,
       lastCallTriggerTime = None \<rparr>"

definition worldOf :: "TrackingState \<Rightarrow> world" where
  "worldOf s =
     \<lparr> stored = Some s, defaultLastTick = 0, isIdle = False, isWindowFocused = True,
       effects = [] \<rparr>"

definition exampleWorld :: world where
  "exampleWorld = worldOf exampleState"

text \<open>A tick one second later on the same site, with every reply favourable.\<close>

definition exampleEnv :: tick_env where
  "exampleEnv =
     \<lparr> tickNow = 1001000, activeDomain = Some ''github.com'', switchNow = 1001000,
       callNow = 1001000, processNow = 1001000, twilioConfigured = True,
       profileReply = ProfileRow (Some ''5551234567''), fetchReply = ResponseOk \<rparr>"

text \<open>Three ticks after long gaps, at 1100000, 1230000 and 1500000.\<close>

definition exampleRun :: "tick_env list" where
  "exampleRun =
     [ exampleEnv\<lparr>tickNow := 1100000, callNow := 1100000, processNow := 1100000\<rparr>,
       exampleEnv\<lparr>tickNow := 1230000, callNow := 1230000, processNow := 1230000\<rparr>,
       exampleEnv\<lparr>tickNow := 1500000, callNow := 1500000, processNow := 1500000\<rparr> ]"

text \<open>A tick at clock reading \<open>t\<close> with the active tab on \<open>d\<close>, Twilio configured, a
  number in the profile and every request accepted.\<close>

definition tickAt :: "int \<Rightarrow> string \<Rightarrow> tick_env" where
  "tickAt t d =
     \<lparr> tickNow = t, activeDomain = Some d, switchNow = t, callNow = t, processNow = t,
       twilioConfigured = True, profileReply = ProfileRow (Some ''5551234567''),
       fetchReply = ResponseOk \<rparr>"

text \<open>
  Two minutes of browsing: a tick on github.com, one second on youtube.com, then
  twelve ticks on github.com ten seconds apart.
\<close>

definition streakRun :: "tick_env list" where
  "streakRun =
     [ tickAt 1001000 ''github.com'', tickAt 1002000 ''youtube.com'',
       tickAt 1012000 ''github.com'', tickAt 1022000 ''github.com'',
       tickAt 1032000 ''github.com'', tickAt 1042000 ''github.com'',
       tickAt 1052000 ''github.com'', tickAt 1062000 ''github.com'',
       tickAt 1072000 ''github.com'', tickAt 1082000 ''github.com'',
       tickAt 1092000 ''github.com'', tickAt 1102000 ''github.com'',
       tickAt 1112000 ''github.com'', tickAt 1122000 ''github.com'' ]"

section \<open>The store: frame property\<close>

lemma get_update [simp]:
  "getTrackingState (snd (updateTrackingState u w)) = spread (getTrackingState w) u"
  by (simp add: updateTrackingState_def setTrackingState_def getTrackingState_def Let_def)

lemma effects_update [simp]: "effects (snd (updateTrackingState u w)) = effects w"
  by (simp add: updateTrackingState_def setTrackingState_def Let_def)

lemma flags_update [simp]:
  "isIdle (snd (updateTrackingState u w)) = isIdle w"
  "isWindowFocused (snd (updateTrackingState u w)) = isWindowFocused w"
  by (simp_all add: updateTrackingState_def setTrackingState_def Let_def)

lemma get_worldOf [simp]: "getTrackingState (worldOf s) = s"
  by (simp add: getTrackingState_def worldOf_def)

text \<open>
  C10. \<^verbatim>\<open>updateTrackingState\<close> is a read-modify-write merge: every field of the
  tracking state that the partial update does not name (the theme, the user, each
  counter and each time stamp) has, in the state stored after the call, the value it
  had in the state read before the call; the state returned is the state stored.
\<close>

theorem updateTrackingState_frame:
  "let before = getTrackingState w;
       after = getTrackingState (snd (updateTrackingState updates w))
   in (u_currentDomain updates = None \<longrightarrow> currentDomain after = currentDomain before)
    \<and> (u_lastTick updates = None \<longrightarrow> lastTick after = lastTick before)
    \<and> (u_consecutiveProductiveMs updates = None \<longrightarrow>
          consecutiveProductiveMs after = consecutiveProductiveMs before)
    \<and> (u_unproductiveMsBuffer updates = None \<longrightarrow>
          unproductiveMsBuffer after = unproductiveMsBuffer before)
    \<and> (u_totalProductiveMs updates = None \<longrightarrow>
          totalProductiveMs after = totalProductiveMs before)
    \<and> (u_totalUnproductiveMs updates = None \<longrightarrow>
          totalUnproductiveMs after = totalUnproductiveMs before)
    \<and> (u_userId updates = None \<longrightarrow> userId after = userId before)
    \<and> (u_theme updates = None \<longrightarrow> theme after = theme before)
    \<and> (u_lastLeaderboardUpdate updates = None \<longrightarrow>
          lastLeaderboardUpdate after = lastLeaderboardUpdate before)
    \<and> (u_lastCallTriggerTime updates = None \<longrightarrow>
          lastCallTriggerTime after = lastCallTriggerTime before)
    \<and> fst (updateTrackingState updates w) = after"
  by (simp add: Let_def spread_def updateTrackingState_def setTrackingState_def
        getTrackingState_def)

text \<open>
  The update \<^verbatim>\<open>{ lastTick: 1001000 }\<close> on the example state: the tick moves, the
  theme, the user and the counters stay.
\<close>

theorem updateTrackingState_frame_witness:
  "u_currentDomain (noUpdates\<lparr>u_lastTick := Some 1001000\<rparr>) = None
   \<and> u_consecutiveProductiveMs (noUpdates\<lparr>u_lastTick := Some 1001000\<rparr>) = None
   \<and> u_unproductiveMsBuffer (noUpdates\<lparr>u_lastTick := Some 1001000\<rparr>) = None
   \<and> u_totalProductiveMs (noUpdates\<lparr>u_lastTick := Some 1001000\<rparr>) = None
   \<and> u_totalUnproductiveMs (noUpdates\<lparr>u_lastTick := Some 1001000\<rparr>) = None
   \<and> u_userId (noUpdates\<lparr>u_lastTick := Some 1001000\<rparr>) = None
   \<and> u_theme (noUpdates\<lparr>u_lastTick := Some 1001000\<rparr>) = None
   \<and> u_lastLeaderboardUpdate (noUpdates\<lparr>u_lastTick := Some 1001000\<rparr>) = None
   \<and> u_lastCallTriggerTime (noUpdates\<lparr>u_lastTick := Some 1001000\<rparr>) = None
   \<and> getTrackingState
        (snd (updateTrackingState (noUpdates\<lparr>u_lastTick := Some 1001000\<rparr>) exampleWorld))
       = \<lparr> currentDomain = Some ''github.com'', lastTick = 1001000,
           consecutiveProductiveMs = 40000, unproductiveMsBuffer = 3000,
           totalProductiveMs = 5000, totalUnproductiveMs = 7000,
           userId = Some ''u1'', theme = Dark, lastLeaderboardUpdate = 900000,
           lastCallTriggerTime = None \<rparr>
   \<and> u_lastTick (noUpdates\<lparr>u_theme := Some Light\<rparr>) = None
   \<and> lastTick (getTrackingState
        (snd (updateTrackingState (noUpdates\<lparr>u_theme := Some Light\<rparr>) exampleWorld)))
       = 1000000"
proof -
  have s: "getTrackingState exampleWorld = exampleState"
    by (simp add: exampleWorld_def)
  have n: "u_currentDomain (noUpdates\<lparr>u_lastTick := Some 1001000\<rparr>) = None"
      "u_consecutiveProductiveMs (noUpdates\<lparr>u_lastTick := Some 1001000\<rparr>) = None"
      "u_unproductiveMsBuffer (noUpdates\<lparr>u_lastTick := Some 1001000\<rparr>) = None"
      "u_totalProductiveMs (noUpdates\<lparr>u_lastTick := Some 1001000\<rparr>) = None"
      "u_totalUnproductiveMs (noUpdates\<lparr>u_lastTick := Some 1001000\<rparr>) = None"
      "u_userId (noUpdates\<lparr>u_lastTick := Some 1001000\<rparr>) = None"
      "u_theme (noUpdates\<lparr>u_lastTick := Some 1001000\<rparr>) = None"
      "u_lastLeaderboardUpdate (noUpdates\<lparr>u_lastTick := Some 1001000\<rparr>) = None"
      "u_lastCallTriggerTime (noUpdates\<lparr>u_lastTick := Some 1001000\<rparr>) = None"
      "u_lastTick (noUpdates\<lparr>u_theme := Some Light\<rparr>) = None"
    by (simp_all add: noUpdates_def)
  have t: "lastTick (getTrackingState
        (snd (updateTrackingState (noUpdates\<lparr>u_lastTick := Some 1001000\<rparr>) exampleWorld)))
       = 1001000"
    by (simp add: s spread_def noUpdates_def)
  have a: "currentDomain (getTrackingState
             (snd (updateTrackingState (noUpdates\<lparr>u_lastTick := Some 1001000\<rparr>) exampleWorld)))
             = Some ''github.com''
      \<and> consecutiveProductiveMs (getTrackingState
             (snd (updateTrackingState (noUpdates\<lparr>u_lastTick := Some 1001000\<rparr>) exampleWorld)))
             = 40000
      \<and> unproductiveMsBuffer (getTrackingState
             (snd (updateTrackingState (noUpdates\<lparr>u_lastTick := Some 1001000\<rparr>) exampleWorld)))
             = 3000
      \<and> totalProductiveMs (getTrackingState
             (snd (updateTrackingState (noUpdates\<lparr>u_lastTick := Some 1001000\<rparr>) exampleWorld)))
             = 5000
      \<and> totalUnproductiveMs (getTrackingState
             (snd (updateTrackingState (noUpdates\<lparr>u_lastTick := Some 1001000\<rparr>) exampleWorld)))
             = 7000
      \<and> userId (getTrackingState
             (snd (updateTrackingState (noUpdates\<lparr>u_lastTick := Some 1001000\<rparr>) exampleWorld)))
             = Some ''u1''
      \<and> theme (getTrackingState
             (snd (updateTrackingState (noUpdates\<lparr>u_lastTick := Some 1001000\<rparr>) exampleWorld)))
             = Dark
      \<and> lastLeaderboardUpdate (getTrackingState
             (snd (updateTrackingState (noUpdates\<lparr>u_lastTick := Some 1001000\<rparr>) exampleWorld)))
             = 900000
      \<and> lastCallTriggerTime (getTrackingState
             (snd (updateTrackingState (noUpdates\<lparr>u_lastTick := Some 1001000\<rparr>) exampleWorld)))
             = None"
    using updateTrackingState_frame
            [where updates = "noUpdates\<lparr>u_lastTick := Some 1001000\<rparr>" and w = exampleWorld]
          n
    unfolding Let_def s
    by (simp add: exampleState_def del: get_update)
  have b: "lastTick (getTrackingState
        (snd (updateTrackingState (noUpdates\<lparr>u_theme := Some Light\<rparr>) exampleWorld)))
       = 1000000"
    using updateTrackingState_frame
            [where updates = "noUpdates\<lparr>u_theme := Some Light\<rparr>" and w = exampleWorld]
          n
    unfolding Let_def s
    by (simp add: exampleState_def del: get_update)
  have "getTrackingState
        (snd (updateTrackingState (noUpdates\<lparr>u_lastTick := Some 1001000\<rparr>) exampleWorld))
       = \<lparr> currentDomain = Some ''github.com'', lastTick = 1001000,
           consecutiveProductiveMs = 40000, unproductiveMsBuffer = 3000,
           totalProductiveMs = 5000, totalUnproductiveMs = 7000,
           userId = Some ''u1'', theme = Dark, lastLeaderboardUpdate = 900000,
           lastCallTriggerTime = None \<rparr>"
    using a t by (intro TrackingState.equality) (simp_all del: get_update)
  then show ?thesis using n b by (simp del: get_update)
qed

section \<open>Classification\<close>

lemmas classify_eval =
  classifyDomain_def stripWww_def toLowerCase_def toLowerChar_def endsWith_def
  UNPRODUCTIVE_DOMAINS_def

lemmas example_eval =
  exampleWorld_def exampleState_def exampleEnv_def

lemma endsWith_suffix: "endsWith s t \<longleftrightarrow> suffix t s"
proof
  assume "endsWith s t"
  then have "s = take (length s - length t) s @ t"
    by (metis append_take_drop_id endsWith_def)
  then show "suffix t s" by (metis suffixI)
next
  assume "suffix t s"
  then obtain zs where "s = zs @ t" by (auto simp: suffix_def)
  then show "endsWith s t" by (simp add: endsWith_def)
qed

lemma denylistLoop_iff:
  "denylistLoop n us \<longleftrightarrow> (\<exists>u\<in>set us. n = u \<or> suffix (''.'' @ u) n)"
  by (induction us) (auto simp: endsWith_suffix)

lemma toLowerChar_idem: "toLowerChar (toLowerChar c) = toLowerChar c"
proof -
  define n where "n = (of_char c :: nat)"
  show ?thesis
  proof (cases "(65 \<le> n \<and> n \<le> 90) \<or> (192 \<le> n \<and> n \<le> 222 \<and> n \<noteq> 215)")
    case True
    then have m: "(n + 32) mod 256 = n + 32" by auto
    have l: "toLowerChar c = char_of (n + 32)"
      using True by (simp add: toLowerChar_def n_def Let_def)
    have "(of_char (char_of (n + 32)) :: nat) = n + 32"
      using m by simp
    then have "toLowerChar (char_of (n + 32)) = char_of (n + 32)"
      using True by (auto simp add: toLowerChar_def Let_def)
    with l show ?thesis by simp
  next
    case False
    then show ?thesis by (auto simp add: toLowerChar_def n_def Let_def)
  qed
qed

lemma toLowerCase_idem: "toLowerCase (toLowerCase s) = toLowerCase s"
  by (simp add: toLowerCase_def toLowerChar_idem)

lemma toLowerCase_Nil_iff: "toLowerCase d = [] \<longleftrightarrow> d = []"
  by (simp add: toLowerCase_def)

lemma denylist_stripWww:
  "denylistLoop (stripWww n) UNPRODUCTIVE_DOMAINS = denylistLoop n UNPRODUCTIVE_DOMAINS"
proof (cases "take 4 n = ''www.''")
  case True
  then have n: "n = ''www.'' @ drop 4 n" by (metis append_take_drop_id)
  define r where "r = drop 4 n"
  have s: "stripWww n = r" using True by (simp add: stripWww_def r_def)
  have n': "n = ''www.'' @ r" using n by (simp add: r_def)
  have "denylistLoop r UNPRODUCTIVE_DOMAINS = denylistLoop (''www.'' @ r) UNPRODUCTIVE_DOMAINS"
    unfolding denylistLoop_iff
    by (auto simp add: UNPRODUCTIVE_DOMAINS_def suffix_append suffix_Cons Cons_eq_append_conv)
  then show ?thesis using s n' by simp
next
  case False
  then show ?thesis by (simp add: stripWww_def)
qed

lemma classify_www:
  assumes "d \<noteq> []"
  shows "classifyDomain (Some (''www.'' @ d)) = classifyDomain (Some d)"
proof -
  have "stripWww (toLowerCase (''www.'' @ d)) = toLowerCase d"
    by (simp add: toLowerCase_def toLowerChar_def stripWww_def)
  moreover have "denylistLoop (stripWww (toLowerCase d)) UNPRODUCTIVE_DOMAINS
      = denylistLoop (toLowerCase d) UNPRODUCTIVE_DOMAINS"
    by (rule denylist_stripWww)
  ultimately show ?thesis
    using assms by (simp add: classifyDomain_def Let_def)
qed

lemma classify_case:
  "toLowerCase d = toLowerCase d' \<Longrightarrow> classifyDomain (Some d) = classifyDomain (Some d')"
  using toLowerCase_Nil_iff [of d] toLowerCase_Nil_iff [of d']
  by (auto simp add: classifyDomain_def Let_def)

lemma classify_SomeD:
  "classifyDomain d = Some c \<Longrightarrow> \<exists>x. d = Some x \<and> x \<noteq> []"
  by (cases d) (auto simp add: classifyDomain_def split: if_splits)

text \<open>
  C9, as the code has it. \<^verbatim>\<open>classifyDomain\<close> is a function of its argument alone.
  It returns null for null and for the empty string, and for no other input. A
  non-empty domain is unproductive exactly when its normal form (lower case, one
  leading \<^verbatim>\<open>www.\<close> removed) equals a denylisted host name or ends with a dot
  followed by one, and productive otherwise. Two spellings that differ only in case
  classify alike, lower-casing a domain does not change its class, and neither does
  putting \<^verbatim>\<open>www.\<close> in front of a non-empty domain.
\<close>

theorem classifyDomain_characterisation:
  "classifyDomain None = None
   \<and> (classifyDomain (Some d) = None \<longleftrightarrow> d = [])
   \<and> (classifyDomain (Some d) = Some Unproductive \<longleftrightarrow>
        d \<noteq> [] \<and> (\<exists>u\<in>set UNPRODUCTIVE_DOMAINS.
                     stripWww (toLowerCase d) = u
                     \<or> suffix (''.'' @ u) (stripWww (toLowerCase d))))
   \<and> (classifyDomain (Some d) = Some Productive \<longleftrightarrow>
        d \<noteq> [] \<and> \<not> (\<exists>u\<in>set UNPRODUCTIVE_DOMAINS.
                       stripWww (toLowerCase d) = u
                       \<or> suffix (''.'' @ u) (stripWww (toLowerCase d))))
   \<and> (toLowerCase d = toLowerCase d' \<longrightarrow>
        classifyDomain (Some d) = classifyDomain (Some d'))
   \<and> classifyDomain (Some (toLowerCase d)) = classifyDomain (Some d)
   \<and> (d \<noteq> [] \<longrightarrow> classifyDomain (Some (''www.'' @ d)) = classifyDomain (Some d))"
proof -
  have a: "classifyDomain None = None" by (simp add: classifyDomain_def)
  have b: "classifyDomain (Some d) = None \<longleftrightarrow> d = []"
    by (simp add: classifyDomain_def Let_def)
  have c: "classifyDomain (Some d) = Some Unproductive \<longleftrightarrow>
        d \<noteq> [] \<and> (\<exists>u\<in>set UNPRODUCTIVE_DOMAINS.
                     stripWww (toLowerCase d) = u
                     \<or> suffix (''.'' @ u) (stripWww (toLowerCase d)))"
    by (simp add: classifyDomain_def Let_def denylistLoop_iff)
  have e: "classifyDomain (Some d) = Some Productive \<longleftrightarrow>
        d \<noteq> [] \<and> \<not> (\<exists>u\<in>set UNPRODUCTIVE_DOMAINS.
                       stripWww (toLowerCase d) = u
                       \<or> suffix (''.'' @ u) (stripWww (toLowerCase d)))"
    by (simp add: classifyDomain_def Let_def denylistLoop_iff)
  have f: "classifyDomain (Some (toLowerCase d)) = classifyDomain (Some d)"
    by (rule classify_case) (rule toLowerCase_idem)
  show ?thesis
    using a b c e f classify_case [of d d'] classify_www [of d] by blast
qed

text \<open>
  The examples of the specification: \<^verbatim>\<open>www.Example.COM\<close> classifies as
  \<^verbatim>\<open>example.com\<close> does, a subdomain of a denylisted host is unproductive, and a host
  that merely ends with the letters of one is not.
\<close>

theorem classifyDomain_characterisation_witness:
  "''Example.COM'' \<noteq> []
   \<and> toLowerCase ''Example.COM'' = toLowerCase ''example.com''
   \<and> classifyDomain (Some ''www.Example.COM'') = classifyDomain (Some ''example.com'')
   \<and> classifyDomain (Some ''a.b.youtube.com'') = Some Unproductive
   \<and> classifyDomain (Some ''notyoutube.com'') = Some Productive"
proof -
  have h1: "''Example.COM'' \<noteq> []" by simp
  have h2: "toLowerCase ''Example.COM'' = toLowerCase ''example.com''"
    by (simp add: toLowerCase_def toLowerChar_def char_of_eq_iff)
  have "classifyDomain (Some (''www.'' @ ''Example.COM'')) = classifyDomain (Some ''example.com'')"
    using classifyDomain_characterisation [of "''Example.COM''" "''example.com''"] h1 h2
    by simp
  moreover have "classifyDomain (Some ''a.b.youtube.com'') = Some Unproductive"
    using classifyDomain_characterisation [of "''a.b.youtube.com''" "''a.b.youtube.com''"]
    by (simp add: classify_eval suffix_Cons)
  moreover have "classifyDomain (Some ''notyoutube.com'') = Some Productive"
    using classifyDomain_characterisation [of "''notyoutube.com''" "''notyoutube.com''"]
    by (simp add: classify_eval suffix_Cons)
  ultimately show ?thesis using h1 h2 by simp
qed

text \<open>The empty host name (the host of \<^verbatim>\<open>about:blank\<close> or of a \<^verbatim>\<open>file:\<close> URL) is
  not null, and it is classified neither productive nor unproductive.\<close>

theorem classifyDomain_empty_string:
  "classifyDomain (Some '''') = None"
  by (simp add: classifyDomain_def)


section \<open>Effects and state of the small steps\<close>

lemma get_emit [simp]: "getTrackingState (emit e w) = getTrackingState w"
  by (simp add: emit_def getTrackingState_def split: option.splits)

lemma effects_emit [simp]: "effects (emit e w) = effects w @ [e]"
  by (simp add: emit_def)

lemma flags_emit [simp]:
  "isIdle (emit e w) = isIdle w" "isWindowFocused (emit e w) = isWindowFocused w"
  by (simp_all add: emit_def)

lemma worldOf_fields [simp]:
  "isIdle (worldOf s) = False" "isWindowFocused (worldOf s) = True"
  "effects (worldOf s) = []"
  by (simp_all add: worldOf_def)

lemma orZero_id [simp]: "orZero x = x"
  by (simp add: orZero_def)

lemma get_record [simp]:
  "getTrackingState (recordProductiveTrigger d ms u w) = getTrackingState w"
  "getTrackingState (recordUnproductiveTime ms u w) = getTrackingState w"
  by (simp_all add: recordProductiveTrigger_def recordUnproductiveTime_def)

lemma truthy_iff: "truthy x \<longleftrightarrow> (\<exists>v. x = Some v \<and> v \<noteq> [])"
  by (cases x) (simp_all add: truthy_def)

lemma callRequests_update [simp]:
  "callRequests (snd (updateTrackingState u w)) = callRequests w"
  by (simp add: callRequests_def)

lemma callRequests_emit [simp]:
  "callRequests (emit e w) = callRequests w + (if e = TwilioCallRequest then 1 else 0)"
  by (simp add: callRequests_def)

lemma callRequests_record [simp]:
  "callRequests (recordProductiveTrigger d ms u w) = callRequests w"
  "callRequests (recordUnproductiveTime ms u w) = callRequests w"
  by (simp_all add: recordProductiveTrigger_def recordUnproductiveTime_def)

lemma callRequests_worldOf [simp]: "callRequests (worldOf s) = 0"
  by (simp add: callRequests_def)

lemma spread_lastTick:
  "spread s (noUpdates\<lparr>u_lastTick := Some t\<rparr>) = s\<lparr>lastTick := t\<rparr>"
  by (simp add: spread_def noUpdates_def)

lemma spread_lastLeaderboardUpdate:
  "spread s (noUpdates\<lparr>u_lastLeaderboardUpdate := Some t\<rparr>) = s\<lparr>lastLeaderboardUpdate := t\<rparr>"
  by (simp add: spread_def noUpdates_def)

section \<open>The domain switch\<close>

lemma get_updateDomain_v2:
  "getTrackingState (updateDomain_v2 d t w) =
     (let s = getTrackingState w
      in if currentDomain s = d then s
         else spread s
           (noUpdates
              \<lparr> u_currentDomain := Some d, u_lastTick := Some t,
                u_consecutiveProductiveMs :=
                  Some (if classifyDomain (currentDomain s) = Some Productive
                           \<and> classifyDomain d = Some Unproductive
                        then 0 else consecutiveProductiveMs s),
                u_unproductiveMsBuffer :=
                  Some (if classifyDomain (currentDomain s) = Some Unproductive
                           \<and> classifyDomain d = Some Productive
                        then 0 else unproductiveMsBuffer s) \<rparr>))"
  by (simp add: updateDomain_v2_def Let_def split: option.splits)

lemma get_updateDomain_v1:
  "getTrackingState (updateDomain_v1 d t w) =
     (let s = getTrackingState w
      in if currentDomain s = d then s
         else spread s
           (noUpdates
              \<lparr> u_currentDomain := Some d, u_lastTick := Some t,
                u_consecutiveProductiveMs :=
                  Some (if classifyDomain d = Some Productive
                        then 0 else consecutiveProductiveMs s),
                u_unproductiveMsBuffer :=
                  Some (if classifyDomain d = Some Unproductive
                        then 0 else unproductiveMsBuffer s) \<rparr>))"
  by (simp add: updateDomain_v1_def Let_def split: option.splits)

lemma flags_updateDomain:
  "isIdle (updateDomain_v2 d t w) = isIdle w"
  "isWindowFocused (updateDomain_v2 d t w) = isWindowFocused w"
  "isIdle (updateDomain_v1 d t w) = isIdle w"
  "isWindowFocused (updateDomain_v1 d t w) = isWindowFocused w"
  by (simp_all add: updateDomain_v2_def updateDomain_v1_def Let_def
        recordProductiveTrigger_def recordUnproductiveTime_def split: option.splits)

lemma effects_updateDomain_signed_out:
  assumes "\<not> truthy (userId (getTrackingState w))"
  shows "effects (updateDomain_v1 d t w) = effects w"
    and "effects (updateDomain_v2 d t w) = effects w"
  using assms
  by (auto simp add: updateDomain_v1_def updateDomain_v2_def Let_def truthy_iff
        split: option.splits)

text \<open>
  C1, for the second variant of \<^verbatim>\<open>updateDomain\<close> (lines 567 to 616). When the
  outgoing and the incoming domain both classify as productive, the handler leaves
  \<open>consecutiveProductiveMs\<close> as it was: the streak runs on across productive sites.
\<close>

theorem updateDomain_v2_productive_switch_keeps_streak:
  assumes "classifyDomain (currentDomain (getTrackingState w)) = Some Productive"
      and "classifyDomain newDomain = Some Productive"
  shows "consecutiveProductiveMs (getTrackingState (updateDomain_v2 newDomain dateNow w))
         = consecutiveProductiveMs (getTrackingState w)"
  using assms
  by (simp add: get_updateDomain_v2 Let_def spread_def noUpdates_def)

text \<open>Forty seconds on github.com, then a switch to stackoverflow.com: still forty.\<close>

theorem updateDomain_v2_productive_switch_witness:
  "classifyDomain (currentDomain (getTrackingState exampleWorld)) = Some Productive
   \<and> classifyDomain (Some ''stackoverflow.com'') = Some Productive
   \<and> consecutiveProductiveMs
        (getTrackingState (updateDomain_v2 (Some ''stackoverflow.com'') 1001000 exampleWorld))
       = 40000"
proof -
  have h1: "classifyDomain (currentDomain (getTrackingState exampleWorld)) = Some Productive"
    by (simp add: example_eval classify_eval)
  have h2: "classifyDomain (Some ''stackoverflow.com'') = Some Productive"
    by (simp add: classify_eval)
  show ?thesis
    using updateDomain_v2_productive_switch_keeps_streak [OF h1 h2, of 1001000] h1 h2
    by (simp add: example_eval)
qed

text \<open>
  The first variant of \<^verbatim>\<open>updateDomain\<close> (lines 85 to 115) writes 0 into
  \<open>consecutiveProductiveMs\<close> whenever the incoming domain is productive: the same
  switch ends the streak.
\<close>

theorem updateDomain_v1_productive_switch_resets_streak:
  "classifyDomain (currentDomain (getTrackingState exampleWorld)) = Some Productive
   \<and> classifyDomain (Some ''stackoverflow.com'') = Some Productive
   \<and> consecutiveProductiveMs (getTrackingState exampleWorld) = 40000
   \<and> consecutiveProductiveMs
        (getTrackingState (updateDomain_v1 (Some ''stackoverflow.com'') 1001000 exampleWorld))
       = 0"
  by (simp add: get_updateDomain_v1 Let_def spread_def noUpdates_def example_eval classify_eval)

text \<open>
  C2, for the second variant of \<^verbatim>\<open>updateDomain\<close>. A switch from a productive to
  an unproductive domain sets \<open>consecutiveProductiveMs\<close> to 0 and leaves
  \<open>unproductiveMsBuffer\<close> as it was; a switch from an unproductive to a productive
  domain sets \<open>unproductiveMsBuffer\<close> to 0 and leaves \<open>consecutiveProductiveMs\<close> as it
  was.
\<close>

theorem updateDomain_v2_category_switch:
  "let s = getTrackingState w;
       s' = getTrackingState (updateDomain_v2 newDomain dateNow w)
   in (classifyDomain (currentDomain s) = Some Productive
         \<and> classifyDomain newDomain = Some Unproductive \<longrightarrow>
       consecutiveProductiveMs s' = 0 \<and> unproductiveMsBuffer s' = unproductiveMsBuffer s)
    \<and> (classifyDomain (currentDomain s) = Some Unproductive
         \<and> classifyDomain newDomain = Some Productive \<longrightarrow>
       unproductiveMsBuffer s' = 0 \<and> consecutiveProductiveMs s' = consecutiveProductiveMs s)"
  by (auto simp add: get_updateDomain_v2 Let_def spread_def noUpdates_def)

text \<open>From github.com to youtube.com, and from youtube.com to github.com, with 40 s of
  streak and 3 s of buffer.\<close>

theorem updateDomain_v2_category_switch_witness:
  "classifyDomain (Some ''github.com'') = Some Productive
   \<and> classifyDomain (Some ''youtube.com'') = Some Unproductive
   \<and> consecutiveProductiveMs
        (getTrackingState (updateDomain_v2 (Some ''youtube.com'') 1001000 exampleWorld)) = 0
   \<and> unproductiveMsBuffer
        (getTrackingState (updateDomain_v2 (Some ''youtube.com'') 1001000 exampleWorld)) = 3000
   \<and> unproductiveMsBuffer
        (getTrackingState
           (updateDomain_v2 (Some ''github.com'') 1001000
              (worldOf (exampleState\<lparr>currentDomain := Some ''youtube.com''\<rparr>)))) = 0
   \<and> consecutiveProductiveMs
        (getTrackingState
           (updateDomain_v2 (Some ''github.com'') 1001000
              (worldOf (exampleState\<lparr>currentDomain := Some ''youtube.com''\<rparr>)))) = 40000"
proof -
  have h1: "classifyDomain (Some ''github.com'') = Some Productive"
    by (simp add: classify_eval)
  have h2: "classifyDomain (Some ''youtube.com'') = Some Unproductive"
    by (simp add: classify_eval)
  show ?thesis
    using updateDomain_v2_category_switch
            [where w = exampleWorld and newDomain = "Some ''youtube.com''"
               and dateNow = 1001000]
          updateDomain_v2_category_switch
            [where w = "worldOf (exampleState\<lparr>currentDomain := Some ''youtube.com''\<rparr>)"
               and newDomain = "Some ''github.com''" and dateNow = 1001000]
          h1 h2
    by (simp add: Let_def example_eval)
qed

text \<open>
  The first variant resets by the class of the incoming domain alone: entering
  youtube.com from github.com keeps the productive streak and zeroes the unproductive
  buffer.
\<close>

theorem updateDomain_v1_category_switch_counterexample:
  "classifyDomain (currentDomain (getTrackingState exampleWorld)) = Some Productive
   \<and> classifyDomain (Some ''youtube.com'') = Some Unproductive
   \<and> unproductiveMsBuffer (getTrackingState exampleWorld) = 3000
   \<and> consecutiveProductiveMs
        (getTrackingState (updateDomain_v1 (Some ''youtube.com'') 1001000 exampleWorld))
       = 40000
   \<and> unproductiveMsBuffer
        (getTrackingState (updateDomain_v1 (Some ''youtube.com'') 1001000 exampleWorld))
       = 0"
  by (simp add: get_updateDomain_v1 Let_def spread_def noUpdates_def example_eval classify_eval)


section \<open>The outbound call\<close>

lemma triggerAICall_v1_calls:
  "callRequests (triggerAICall_v1 n r w) = callRequests w +
     (if (case lastCallTriggerTime (getTrackingState w) of
            Some l \<Rightarrow> 0 < l \<and> n - l < 300000 | None \<Rightarrow> False) then 0 else 1)"
  by (cases r)
     (simp_all add: triggerAICall_v1_def Let_def AI_CALL_COOLDOWN_MS_def split: option.splits)

lemma triggerAICall_v1_state:
  "getTrackingState (triggerAICall_v1 n r w) =
     (if \<not> (case lastCallTriggerTime (getTrackingState w) of
            Some l \<Rightarrow> 0 < l \<and> n - l < 300000 | None \<Rightarrow> False) \<and> r = ResponseOk
      then spread (getTrackingState w) (noUpdates\<lparr>u_lastCallTriggerTime := Some n\<rparr>)
      else getTrackingState w)"
  by (cases r)
     (auto simp add: triggerAICall_v1_def Let_def AI_CALL_COOLDOWN_MS_def split: option.splits)

lemma triggerAICall_v2_calls:
  "callRequests (triggerAICall_v2 c p r n w) \<le> callRequests w + 1"
  by (cases r)
     (simp_all add: triggerAICall_v2_def Let_def split: option.splits profile_result.splits)

lemma triggerAICall_v2_state:
  "getTrackingState (triggerAICall_v2 c p r n w) =
     (if callRequests (triggerAICall_v2 c p r n w) = callRequests w + 1 \<and> r = ResponseOk
      then spread (getTrackingState w)
             (noUpdates\<lparr> u_lastCallTriggerTime := Some n,
                         u_consecutiveProductiveMs := Some 0,
                         u_totalProductiveMs := Some 0 \<rparr>)
      else getTrackingState w)"
  by (cases r)
     (simp_all add: triggerAICall_v2_def Let_def split: option.splits profile_result.splits)

lemma get_triggerAICall_v2_fields:
  "userId (getTrackingState (triggerAICall_v2 c p r n w)) = userId (getTrackingState w)"
  "currentDomain (getTrackingState (triggerAICall_v2 c p r n w))
     = currentDomain (getTrackingState w)"
  "unproductiveMsBuffer (getTrackingState (triggerAICall_v2 c p r n w))
     = unproductiveMsBuffer (getTrackingState w)"
  "totalUnproductiveMs (getTrackingState (triggerAICall_v2 c p r n w))
     = totalUnproductiveMs (getTrackingState w)"
  by (simp_all add: triggerAICall_v2_state spread_def noUpdates_def)




section \<open>The leaderboard sync\<close>

text \<open>
  C7, as the code has it. A sync that is due (a signed-in user, at least 60000 ms
  since the last one) upserts one number, the unproductive total in whole seconds,
  and only when the profile row of the user was found; it then stores
  \<open>lastLeaderboardUpdate = now\<close> and nothing else: \<open>totalProductiveMs\<close> and
  \<open>totalUnproductiveMs\<close> keep their values, and the productive total is not sent.
\<close>

theorem checkAndUpdateLeaderboard_effect:
  assumes "userId (getTrackingState w) = Some uid" and "uid \<noteq> []"
      and "now - lastLeaderboardUpdate (getTrackingState w) \<ge> 60000"
  shows "getTrackingState (checkAndUpdateLeaderboard now profileFound w)
           = (getTrackingState w)\<lparr>lastLeaderboardUpdate := now\<rparr>
       \<and> effects (checkAndUpdateLeaderboard now profileFound w)
           = effects w @ (if profileFound
                          then [LeaderboardGlobalUpsert uid
                                  (totalUnproductiveMs (getTrackingState w) div 1000)]
                          else [])"
  using assms
  by (simp add: checkAndUpdateLeaderboard_def updateLeaderboard_def Let_def
        LEADERBOARD_UPDATE_INTERVAL_MS_def spread_lastLeaderboardUpdate)

text \<open>A sync 101 s after the last one, with 5 s productive and 7 s unproductive on the
  totals.\<close>

theorem checkAndUpdateLeaderboard_effect_witness:
  "userId (getTrackingState exampleWorld) = Some ''u1'' \<and> ''u1'' \<noteq> []
   \<and> 1001000 - lastLeaderboardUpdate (getTrackingState exampleWorld) \<ge> 60000
   \<and> getTrackingState (checkAndUpdateLeaderboard 1001000 True exampleWorld)
       = exampleState\<lparr>lastLeaderboardUpdate := 1001000\<rparr>
   \<and> effects (checkAndUpdateLeaderboard 1001000 True exampleWorld)
       = [LeaderboardGlobalUpsert ''u1'' 7]"
proof -
  have h1: "userId (getTrackingState exampleWorld) = Some ''u1''"
    by (simp add: example_eval)
  have h2: "''u1'' \<noteq> []" by simp
  have h3: "1001000 - lastLeaderboardUpdate (getTrackingState exampleWorld) \<ge> 60000"
    by (simp add: example_eval)
  have "getTrackingState exampleWorld = exampleState"
    by (simp add: exampleWorld_def)
  moreover have "effects exampleWorld = []"
    by (simp add: exampleWorld_def)
  moreover have "totalUnproductiveMs exampleState div 1000 = 7"
    by (simp add: exampleState_def)
  ultimately show ?thesis
    using checkAndUpdateLeaderboard_effect [OF h1 h2 h3, of True] h1 h2 h3
    by simp
qed

text \<open>After that sync both totals still hold 5000 and 7000, and the one request sent
  carries the unproductive seconds only.\<close>

theorem checkAndUpdateLeaderboard_keeps_totals:
  "totalProductiveMs
     (getTrackingState (checkAndUpdateLeaderboard 1001000 True exampleWorld)) = 5000
   \<and> totalUnproductiveMs
     (getTrackingState (checkAndUpdateLeaderboard 1001000 True exampleWorld)) = 7000
   \<and> effects (checkAndUpdateLeaderboard 1001000 True exampleWorld)
       = [LeaderboardGlobalUpsert ''u1'' 7]"
  by (simp add: checkAndUpdateLeaderboard_def updateLeaderboard_def Let_def
        LEADERBOARD_UPDATE_INTERVAL_MS_def spread_def noUpdates_def example_eval)


section \<open>The tick\<close>

lemma processTime_signed_out:
  assumes "\<not> truthy (userId st)"
  shows "processTime_v1 st e env w
           = snd (updateTrackingState (noUpdates\<lparr>u_lastTick := Some (processNow env)\<rparr>) w)"
    and "processTime_v2 st e env w
           = snd (updateTrackingState (noUpdates\<lparr>u_lastTick := Some (processNow env)\<rparr>) w)"
  using assms
  by (auto simp add: processTime_v1_def processTime_v2_def Let_def truthy_iff
        split: option.splits)

lemma processTime_v2_productive:
  assumes "userId st = Some uid" "uid \<noteq> []"
      and "classifyDomain (currentDomain st) = Some Productive"
  shows "consecutiveProductiveMs (getTrackingState (processTime_v2 st e env w))
           = consecutiveProductiveMs st + e"
    and "totalProductiveMs (getTrackingState (processTime_v2 st e env w))
           = totalProductiveMs st + e"
    and "lastTick (getTrackingState (processTime_v2 st e env w)) = processNow env"
    and "totalUnproductiveMs (getTrackingState (processTime_v2 st e env w))
           = totalUnproductiveMs (getTrackingState w)"
    and "unproductiveMsBuffer (getTrackingState (processTime_v2 st e env w))
           = unproductiveMsBuffer (getTrackingState w)"
proof -
  from classify_SomeD [OF assms(3)] obtain cur where
    cur: "currentDomain st = Some cur" "cur \<noteq> []" by blast
  note defs = processTime_v2_def Let_def spread_def noUpdates_def
    get_triggerAICall_v2_fields
  show "consecutiveProductiveMs (getTrackingState (processTime_v2 st e env w))
           = consecutiveProductiveMs st + e"
    using assms cur by (simp add: defs)
  show "totalProductiveMs (getTrackingState (processTime_v2 st e env w))
           = totalProductiveMs st + e"
    using assms cur by (simp add: defs)
  show "lastTick (getTrackingState (processTime_v2 st e env w)) = processNow env"
    using assms cur by (simp add: defs)
  show "totalUnproductiveMs (getTrackingState (processTime_v2 st e env w))
           = totalUnproductiveMs (getTrackingState w)"
    using assms cur by (simp add: defs)
  show "unproductiveMsBuffer (getTrackingState (processTime_v2 st e env w))
           = unproductiveMsBuffer (getTrackingState w)"
    using assms cur by (simp add: defs)
qed

lemma processTime_v2_unproductive:
  assumes "userId st = Some uid" "uid \<noteq> []"
      and "classifyDomain (currentDomain st) = Some Unproductive"
  shows "getTrackingState (processTime_v2 st e env w) =
           spread (getTrackingState w)
             (noUpdates
                \<lparr> u_unproductiveMsBuffer :=
                    Some (if unproductiveMsBuffer st + e \<ge> 10000 then 0
                          else unproductiveMsBuffer st + e),
                  u_totalUnproductiveMs := Some (totalUnproductiveMs st + e),
                  u_lastTick := Some (processNow env) \<rparr>)"
proof -
  from classify_SomeD [OF assms(3)] obtain cur where
    cur: "currentDomain st = Some cur" "cur \<noteq> []" by blast
  show ?thesis
    using assms cur
    by (simp add: processTime_v2_def Let_def UNPRODUCTIVE_BUFFER_MS_def)
qed

lemma tick_v2_running:
  assumes "\<not> (isIdle w \<and> \<not> isWindowFocused w)"
      and "0 < tickNow env - lastTick (getTrackingState w)"
  shows "tick_v2 env w =
     (let w1 = (if activeDomain env \<noteq> currentDomain (getTrackingState w)
                then updateDomain_v2 (activeDomain env) (switchNow env) w else w)
      in processTime_v2 (getTrackingState w1)
           (min (tickNow env - lastTick (getTrackingState w)) 10000) env w1)"
  using assms by (auto simp add: tick_v2_def Let_def min_def)

lemma tick_v2_paused:
  assumes "isIdle w \<and> \<not> isWindowFocused w"
  shows "tick_v2 env w
           = snd (updateTrackingState (noUpdates\<lparr>u_lastTick := Some (tickNow env)\<rparr>) w)"
  using assms by (simp add: tick_v2_def Let_def)

text \<open>What a running tick of the second variant does to the counters.\<close>

lemma tick_v2_counters:
  assumes run: "\<not> (isIdle w \<and> \<not> isWindowFocused w)"
      and user: "userId (getTrackingState w) = Some uid" "uid \<noteq> []"
      and pos: "0 < tickNow env - lastTick (getTrackingState w)"
      and a: "a = min (tickNow env - lastTick (getTrackingState w)) 10000"
  shows "classifyDomain (activeDomain env) = Some Productive \<Longrightarrow>
           consecutiveProductiveMs (getTrackingState (tick_v2 env w))
                = consecutiveProductiveMs (getTrackingState w) + a
            \<and> totalProductiveMs (getTrackingState (tick_v2 env w))
                = totalProductiveMs (getTrackingState w) + a
            \<and> totalUnproductiveMs (getTrackingState (tick_v2 env w))
                = totalUnproductiveMs (getTrackingState w)
            \<and> lastTick (getTrackingState (tick_v2 env w)) = processNow env"
    and "classifyDomain (activeDomain env) = Some Unproductive \<Longrightarrow>
           totalUnproductiveMs (getTrackingState (tick_v2 env w))
                = totalUnproductiveMs (getTrackingState w) + a
            \<and> unproductiveMsBuffer (getTrackingState (tick_v2 env w))
                = (if unproductiveMsBuffer (getTrackingState w) + a \<ge> 10000 then 0
                   else unproductiveMsBuffer (getTrackingState w) + a)
            \<and> totalProductiveMs (getTrackingState (tick_v2 env w))
                = totalProductiveMs (getTrackingState w)
            \<and> lastTick (getTrackingState (tick_v2 env w)) = processNow env"
proof -
  define w1 where "w1 = (if activeDomain env \<noteq> currentDomain (getTrackingState w)
                then updateDomain_v2 (activeDomain env) (switchNow env) w else w)"
  define s1 where "s1 = getTrackingState w1"
  note sw = s1_def w1_def get_updateDomain_v2 Let_def spread_def noUpdates_def
  have t: "tick_v2 env w = processTime_v2 s1 a env w1"
    using tick_v2_running [OF run pos] by (simp add: w1_def a s1_def Let_def)
  have dom1: "currentDomain s1 = activeDomain env"
    by (simp add: sw)
  have user1: "userId s1 = Some uid"
    using user by (simp add: sw)
  have tot1: "totalProductiveMs s1 = totalProductiveMs (getTrackingState w)"
     "totalUnproductiveMs s1 = totalUnproductiveMs (getTrackingState w)"
    by (simp_all add: sw)
  have p: "consecutiveProductiveMs s1 = consecutiveProductiveMs (getTrackingState w)"
    if "classifyDomain (activeDomain env) = Some Productive"
    using that by (simp add: sw)
  have u: "unproductiveMsBuffer s1 = unproductiveMsBuffer (getTrackingState w)"
    if "classifyDomain (activeDomain env) = Some Unproductive"
    using that by (simp add: sw)
  show "consecutiveProductiveMs (getTrackingState (tick_v2 env w))
                = consecutiveProductiveMs (getTrackingState w) + a
            \<and> totalProductiveMs (getTrackingState (tick_v2 env w))
                = totalProductiveMs (getTrackingState w) + a
            \<and> totalUnproductiveMs (getTrackingState (tick_v2 env w))
                = totalUnproductiveMs (getTrackingState w)
            \<and> lastTick (getTrackingState (tick_v2 env w)) = processNow env"
    if c: "classifyDomain (activeDomain env) = Some Productive"
  proof -
    have c1: "classifyDomain (currentDomain s1) = Some Productive" using c dom1 by simp
    show ?thesis
      using processTime_v2_productive [OF user1 user(2) c1, of a env w1] p [OF c] tot1
      by (simp add: t s1_def [symmetric])
  qed
  show "totalUnproductiveMs (getTrackingState (tick_v2 env w))
                = totalUnproductiveMs (getTrackingState w) + a
            \<and> unproductiveMsBuffer (getTrackingState (tick_v2 env w))
                = (if unproductiveMsBuffer (getTrackingState w) + a \<ge> 10000 then 0
                   else unproductiveMsBuffer (getTrackingState w) + a)
            \<and> totalProductiveMs (getTrackingState (tick_v2 env w))
                = totalProductiveMs (getTrackingState w)
            \<and> lastTick (getTrackingState (tick_v2 env w)) = processNow env"
    if c: "classifyDomain (activeDomain env) = Some Unproductive"
  proof -
    have c1: "classifyDomain (currentDomain s1) = Some Unproductive" using c dom1 by simp
    show ?thesis
      using u [OF c] tot1
      by (simp add: t processTime_v2_unproductive [OF user1 user(2) c1]
            s1_def [symmetric] spread_def noUpdates_def)
  qed
qed

text \<open>
  C3, for the second variant of \<^verbatim>\<open>tick\<close> (lines 843 to 899). On a tick that is
  not paused, with a signed-in user and raw elapsed time \<open>e > 0\<close>, the time attributed
  is \<open>min e 10000\<close>: on a productive domain it is added to \<open>consecutiveProductiveMs\<close>
  and to \<open>totalProductiveMs\<close>, on an unproductive domain to \<open>totalUnproductiveMs\<close> and
  to \<open>unproductiveMsBuffer\<close>, which is flushed to 0 when it reaches 10000. The tick
  stores \<open>lastTick\<close> as the current clock reading, so what the cap cut off is not seen
  by a later tick.
\<close>

theorem tick_v2_attributes_capped_elapsed:
  assumes "\<not> (isIdle w \<and> \<not> isWindowFocused w)"
      and "userId (getTrackingState w) = Some uid" and "uid \<noteq> []"
      and "0 < tickNow env - lastTick (getTrackingState w)"
  shows
   "let s = getTrackingState w; s' = getTrackingState (tick_v2 env w);
        a = min (tickNow env - lastTick s) 10000
    in (classifyDomain (activeDomain env) = Some Productive \<longrightarrow>
        consecutiveProductiveMs s' = consecutiveProductiveMs s + a
        \<and> totalProductiveMs s' = totalProductiveMs s + a
        \<and> totalUnproductiveMs s' = totalUnproductiveMs s
        \<and> lastTick s' = processNow env)
     \<and> (classifyDomain (activeDomain env) = Some Unproductive \<longrightarrow>
        totalUnproductiveMs s' = totalUnproductiveMs s + a
        \<and> unproductiveMsBuffer s' =
            (if unproductiveMsBuffer s + a \<ge> 10000 then 0 else unproductiveMsBuffer s + a)
        \<and> totalProductiveMs s' = totalProductiveMs s
        \<and> lastTick s' = processNow env)"
  using tick_v2_counters [OF assms refl]
  by (simp add: Let_def)

text \<open>
  A tick 15 s after the last one. On github.com the streak goes from 40000 to 50000
  and the productive total from 5000 to 15000; on youtube.com the unproductive total
  goes from 7000 to 17000 and the buffer, at 13000, is flushed. In both cases
  \<open>lastTick\<close> becomes the clock reading 1015000. From a streak of 115000 the same
  tick on github.com crosses the call threshold and leaves the streak at 125000.
\<close>

theorem tick_v2_attributes_capped_elapsed_witness:
  "\<not> (isIdle exampleWorld \<and> \<not> isWindowFocused exampleWorld)
   \<and> userId (getTrackingState exampleWorld) = Some ''u1'' \<and> ''u1'' \<noteq> []
   \<and> tickNow (exampleEnv\<lparr>tickNow := 1015000, processNow := 1015000\<rparr>)
        - lastTick (getTrackingState exampleWorld) = 15000
   \<and> consecutiveProductiveMs (getTrackingState
        (tick_v2 (exampleEnv\<lparr>tickNow := 1015000, processNow := 1015000\<rparr>) exampleWorld))
       = 50000
   \<and> totalProductiveMs (getTrackingState
        (tick_v2 (exampleEnv\<lparr>tickNow := 1015000, processNow := 1015000\<rparr>) exampleWorld))
       = 15000
   \<and> lastTick (getTrackingState
        (tick_v2 (exampleEnv\<lparr>tickNow := 1015000, processNow := 1015000\<rparr>) exampleWorld))
       = 1015000
   \<and> totalUnproductiveMs (getTrackingState
        (tick_v2 (exampleEnv\<lparr>tickNow := 1015000, processNow := 1015000,
                             activeDomain := Some ''youtube.com''\<rparr>) exampleWorld))
       = 17000
   \<and> unproductiveMsBuffer (getTrackingState
        (tick_v2 (exampleEnv\<lparr>tickNow := 1015000, processNow := 1015000,
                             activeDomain := Some ''youtube.com''\<rparr>) exampleWorld))
       = 0
   \<and> consecutiveProductiveMs (getTrackingState
        (tick_v2 (exampleEnv\<lparr>tickNow := 1015000, processNow := 1015000\<rparr>)
           (worldOf (exampleState\<lparr>consecutiveProductiveMs := 115000\<rparr>))))
       = 125000"
proof -
  have h1: "\<not> (isIdle exampleWorld \<and> \<not> isWindowFocused exampleWorld)"
    by (simp add: exampleWorld_def)
  have h2: "userId (getTrackingState exampleWorld) = Some ''u1''"
    by (simp add: example_eval)
  have h3: "''u1'' \<noteq> []" by simp
  have h4: "0 < tickNow (exampleEnv\<lparr>tickNow := 1015000, processNow := 1015000\<rparr>)
              - lastTick (getTrackingState exampleWorld)"
    by (simp add: example_eval)
  have h5: "0 < tickNow (exampleEnv\<lparr>tickNow := 1015000, processNow := 1015000,
                             activeDomain := Some ''youtube.com''\<rparr>)
              - lastTick (getTrackingState exampleWorld)"
    by (simp add: example_eval)
  have s: "getTrackingState exampleWorld = exampleState"
    by (simp add: exampleWorld_def)
  have k1: "\<not> (isIdle (worldOf (exampleState\<lparr>consecutiveProductiveMs := 115000\<rparr>))
              \<and> \<not> isWindowFocused
                    (worldOf (exampleState\<lparr>consecutiveProductiveMs := 115000\<rparr>)))"
    by simp
  have k2: "userId (getTrackingState
              (worldOf (exampleState\<lparr>consecutiveProductiveMs := 115000\<rparr>))) = Some ''u1''"
    by (simp add: exampleState_def)
  have k4: "0 < tickNow (exampleEnv\<lparr>tickNow := 1015000, processNow := 1015000\<rparr>)
              - lastTick (getTrackingState
                  (worldOf (exampleState\<lparr>consecutiveProductiveMs := 115000\<rparr>)))"
    by (simp add: exampleState_def exampleEnv_def)
  show ?thesis
    using tick_v2_attributes_capped_elapsed [OF h1 h2 h3 h4]
          tick_v2_attributes_capped_elapsed [OF h1 h2 h3 h5]
          tick_v2_attributes_capped_elapsed [OF k1 k2 h3 k4] h1 h2
    by (simp add: Let_def s exampleState_def exampleEnv_def classify_eval)
qed

text \<open>
  The first variant of \<^verbatim>\<open>tick\<close> (lines 267 to 299) has no cap: the same tick,
  15 s after the last one, adds 15000 to the streak, not 10000.
\<close>

theorem tick_v1_attributes_uncapped_elapsed:
  "tickNow (exampleEnv\<lparr>tickNow := 1015000, processNow := 1015000\<rparr>)
     - lastTick (getTrackingState exampleWorld) = 15000
   \<and> consecutiveProductiveMs (getTrackingState exampleWorld) = 40000
   \<and> consecutiveProductiveMs (getTrackingState
        (tick_v1 (exampleEnv\<lparr>tickNow := 1015000, processNow := 1015000\<rparr>) exampleWorld))
       = 55000
   \<and> totalProductiveMs (getTrackingState
        (tick_v1 (exampleEnv\<lparr>tickNow := 1015000, processNow := 1015000\<rparr>) exampleWorld))
       = 20000"
  by (simp add: tick_v1_def processTime_v1_def Let_def spread_def noUpdates_def
        example_eval classify_eval AI_CALL_TRIGGER_MS_def PRODUCTIVE_TRIGGER_MS_def)


text \<open>
  C4, for the second variant of \<^verbatim>\<open>tick\<close>. With a signed-in user, elapsed time
  \<open>e > 0\<close> and a classified active domain, the tick is a pause, storing the clock
  reading in \<open>lastTick\<close> and changing nothing else, exactly when the user is idle or
  locked and the window is not focused, both at once; in every other case it
  attributes \<open>min e 10000\<close>, so the two totals together grow by that amount.
\<close>

theorem tick_v2_pauses_only_when_idle_and_unfocused:
  assumes "userId (getTrackingState w) = Some uid" and "uid \<noteq> []"
      and "0 < tickNow env - lastTick (getTrackingState w)"
      and "classifyDomain (activeDomain env) = Some c"
  shows
   "let s = getTrackingState w; s' = getTrackingState (tick_v2 env w)
    in (isIdle w \<and> \<not> isWindowFocused w \<longrightarrow>
          s' = s\<lparr>lastTick := tickNow env\<rparr> \<and> effects (tick_v2 env w) = effects w)
     \<and> (\<not> (isIdle w \<and> \<not> isWindowFocused w) \<longrightarrow>
          totalProductiveMs s' + totalUnproductiveMs s'
            = totalProductiveMs s + totalUnproductiveMs s
              + min (tickNow env - lastTick s) 10000)"
proof -
  have paused: "getTrackingState (tick_v2 env w)
                  = (getTrackingState w)\<lparr>lastTick := tickNow env\<rparr>
              \<and> effects (tick_v2 env w) = effects w"
    if "isIdle w \<and> \<not> isWindowFocused w"
    using that by (simp add: tick_v2_paused spread_lastTick)
  have running: "totalProductiveMs (getTrackingState (tick_v2 env w))
              + totalUnproductiveMs (getTrackingState (tick_v2 env w))
            = totalProductiveMs (getTrackingState w) + totalUnproductiveMs (getTrackingState w)
              + min (tickNow env - lastTick (getTrackingState w)) 10000"
    if r: "\<not> (isIdle w \<and> \<not> isWindowFocused w)"
  proof (cases c)
    case Productive
    then show ?thesis
      using tick_v2_counters(1) [OF r assms(1,2,3) refl] assms(4) by simp
  next
    case Unproductive
    then show ?thesis
      using tick_v2_counters(2) [OF r assms(1,2,3) refl] assms(4) by simp
  qed
  show ?thesis
    using paused running by (simp add: Let_def)
qed

text \<open>
  One second after the last tick on github.com. Idle with the window unfocused: only
  \<open>lastTick\<close> moves. Idle with the window focused, and active with the window
  unfocused: the productive total grows by 1000.
\<close>

theorem tick_v2_pauses_only_when_idle_and_unfocused_witness:
  "userId (getTrackingState exampleWorld) = Some ''u1'' \<and> ''u1'' \<noteq> []
   \<and> tickNow exampleEnv - lastTick (getTrackingState exampleWorld) = 1000
   \<and> classifyDomain (activeDomain exampleEnv) = Some Productive
   \<and> getTrackingState
        (tick_v2 exampleEnv (exampleWorld\<lparr>isIdle := True, isWindowFocused := False\<rparr>))
       = exampleState\<lparr>lastTick := 1001000\<rparr>
   \<and> totalProductiveMs (getTrackingState
        (tick_v2 exampleEnv (exampleWorld\<lparr>isIdle := True\<rparr>)))
      + totalUnproductiveMs (getTrackingState
        (tick_v2 exampleEnv (exampleWorld\<lparr>isIdle := True\<rparr>))) = 13000
   \<and> totalProductiveMs (getTrackingState
        (tick_v2 exampleEnv (exampleWorld\<lparr>isWindowFocused := False\<rparr>)))
      + totalUnproductiveMs (getTrackingState
        (tick_v2 exampleEnv (exampleWorld\<lparr>isWindowFocused := False\<rparr>))) = 13000"
proof -
  have g [simp]: "getTrackingState (exampleWorld\<lparr>isIdle := a\<rparr>) = exampleState"
      "getTrackingState (exampleWorld\<lparr>isWindowFocused := b\<rparr>) = exampleState"
      "getTrackingState (exampleWorld\<lparr>isIdle := a, isWindowFocused := b\<rparr>) = exampleState"
      "getTrackingState exampleWorld = exampleState" for a b
    by (simp_all add: exampleWorld_def worldOf_def getTrackingState_def)
  have f [simp]: "isIdle (exampleWorld\<lparr>isIdle := a\<rparr>) = a"
      "isWindowFocused (exampleWorld\<lparr>isIdle := a\<rparr>) = True"
      "isIdle (exampleWorld\<lparr>isWindowFocused := b\<rparr>) = False"
      "isWindowFocused (exampleWorld\<lparr>isWindowFocused := b\<rparr>) = b"
      "isIdle (exampleWorld\<lparr>isIdle := a, isWindowFocused := b\<rparr>) = a"
      "isWindowFocused (exampleWorld\<lparr>isIdle := a, isWindowFocused := b\<rparr>) = b" for a b
    by (simp_all add: exampleWorld_def worldOf_def)
  have u: "userId exampleState = Some ''u1''" by (simp add: exampleState_def)
  have n: "''u1'' \<noteq> []" by simp
  have e: "0 < tickNow exampleEnv - lastTick exampleState"
    by (simp add: exampleEnv_def exampleState_def)
  have c: "classifyDomain (activeDomain exampleEnv) = Some Productive"
    by (simp add: exampleEnv_def classify_eval)
  have v: "tickNow exampleEnv = 1001000" "lastTick exampleState = 1000000"
      "totalProductiveMs exampleState = 5000" "totalUnproductiveMs exampleState = 7000"
    by (simp_all add: exampleEnv_def exampleState_def)
  show ?thesis
    using tick_v2_pauses_only_when_idle_and_unfocused
            [where w = "exampleWorld\<lparr>isIdle := True, isWindowFocused := False\<rparr>"
               and env = exampleEnv and uid = "''u1''" and c = Productive]
          tick_v2_pauses_only_when_idle_and_unfocused
            [where w = "exampleWorld\<lparr>isIdle := True\<rparr>"
               and env = exampleEnv and uid = "''u1''" and c = Productive]
          tick_v2_pauses_only_when_idle_and_unfocused
            [where w = "exampleWorld\<lparr>isWindowFocused := False\<rparr>"
               and env = exampleEnv and uid = "''u1''" and c = Productive]
          u n e c
    by (simp add: Let_def v)
qed

text \<open>
  The first variant of \<^verbatim>\<open>tick\<close> pauses when the user is idle or the window is
  not focused, either one: idle with the window focused, a tick one second after the
  last one moves \<open>lastTick\<close> and attributes nothing.
\<close>

theorem tick_v1_pauses_when_idle_alone:
  "isIdle (exampleWorld\<lparr>isIdle := True\<rparr>)
   \<and> isWindowFocused (exampleWorld\<lparr>isIdle := True\<rparr>)
   \<and> tickNow exampleEnv - lastTick (getTrackingState (exampleWorld\<lparr>isIdle := True\<rparr>)) = 1000
   \<and> getTrackingState (tick_v1 exampleEnv (exampleWorld\<lparr>isIdle := True\<rparr>))
       = (getTrackingState (exampleWorld\<lparr>isIdle := True\<rparr>))\<lparr>lastTick := 1001000\<rparr>"
proof -
  have g: "getTrackingState (exampleWorld\<lparr>isIdle := True\<rparr>) = exampleState"
    by (simp add: exampleWorld_def worldOf_def getTrackingState_def)
  have f: "isIdle (exampleWorld\<lparr>isIdle := True\<rparr>)"
      "isWindowFocused (exampleWorld\<lparr>isIdle := True\<rparr>)"
    by (simp_all add: exampleWorld_def worldOf_def)
  have v: "tickNow exampleEnv = 1001000" "lastTick exampleState = 1000000"
    by (simp_all add: exampleEnv_def exampleState_def)
  show ?thesis
    by (simp add: tick_v1_def spread_lastTick g f v)
qed

text \<open>
  C8, as the code has it. While \<open>userId\<close> is null (or empty), a tick of either variant
  sends nothing and attributes nothing: both totals keep their values.
  \<open>consecutiveProductiveMs\<close> and \<open>unproductiveMsBuffer\<close> keep their values too,
  except on a tick that performs a domain switch (it is not paused, time has passed
  and the active domain differs from the stored one), where the reset rule of the
  variant's \<^verbatim>\<open>updateDomain\<close> applies: the first variant zeroes the counter of the
  incoming class, the second zeroes the productive streak on a productive to
  unproductive switch and the buffer on an unproductive to productive one. Nothing
  accumulates locally.
\<close>

theorem tick_signed_out_accumulates_nothing:
  assumes "\<not> truthy (userId (getTrackingState w))"
  shows
   "let s = getTrackingState w;
        s1 = getTrackingState (tick_v1 env w);
        s2 = getTrackingState (tick_v2 env w);
        elapsed = tickNow env - lastTick s;
        switch1 = (\<not> (isIdle w \<or> \<not> isWindowFocused w) \<and> 0 < elapsed
                   \<and> activeDomain env \<noteq> currentDomain s);
        switch2 = (\<not> (isIdle w \<and> \<not> isWindowFocused w) \<and> 0 < elapsed
                   \<and> activeDomain env \<noteq> currentDomain s)
    in effects (tick_v1 env w) = effects w \<and> effects (tick_v2 env w) = effects w
     \<and> totalProductiveMs s1 = totalProductiveMs s
     \<and> totalUnproductiveMs s1 = totalUnproductiveMs s
     \<and> totalProductiveMs s2 = totalProductiveMs s
     \<and> totalUnproductiveMs s2 = totalUnproductiveMs s
     \<and> consecutiveProductiveMs s1 =
         (if switch1 \<and> classifyDomain (activeDomain env) = Some Productive then 0
          else consecutiveProductiveMs s)
     \<and> unproductiveMsBuffer s1 =
         (if switch1 \<and> classifyDomain (activeDomain env) = Some Unproductive then 0
          else unproductiveMsBuffer s)
     \<and> consecutiveProductiveMs s2 =
         (if switch2 \<and> classifyDomain (currentDomain s) = Some Productive
             \<and> classifyDomain (activeDomain env) = Some Unproductive then 0
          else consecutiveProductiveMs s)
     \<and> unproductiveMsBuffer s2 =
         (if switch2 \<and> classifyDomain (currentDomain s) = Some Unproductive
             \<and> classifyDomain (activeDomain env) = Some Productive then 0
          else unproductiveMsBuffer s)"
proof -
  have u1: "\<not> truthy (userId (getTrackingState (updateDomain_v1 d t w)))" for d t
    using assms by (simp add: get_updateDomain_v1 Let_def spread_def noUpdates_def)
  have u2: "\<not> truthy (userId (getTrackingState (updateDomain_v2 d t w)))" for d t
    using assms by (simp add: get_updateDomain_v2 Let_def spread_def noUpdates_def)
  note p = processTime_signed_out [OF assms] processTime_signed_out [OF u1]
    processTime_signed_out [OF u2]
  note e = effects_updateDomain_signed_out [OF assms]
  have t1: "effects (tick_v1 env w) = effects w"
    by (simp add: tick_v1_def Let_def p e)
  have t2: "effects (tick_v2 env w) = effects w"
    by (simp add: tick_v2_def Let_def p e)
  have s1: "totalProductiveMs (getTrackingState (tick_v1 env w))
              = totalProductiveMs (getTrackingState w)
          \<and> totalUnproductiveMs (getTrackingState (tick_v1 env w))
              = totalUnproductiveMs (getTrackingState w)
          \<and> consecutiveProductiveMs (getTrackingState (tick_v1 env w)) =
              (if (\<not> (isIdle w \<or> \<not> isWindowFocused w)
                   \<and> 0 < tickNow env - lastTick (getTrackingState w)
                   \<and> activeDomain env \<noteq> currentDomain (getTrackingState w))
                  \<and> classifyDomain (activeDomain env) = Some Productive then 0
               else consecutiveProductiveMs (getTrackingState w))
          \<and> unproductiveMsBuffer (getTrackingState (tick_v1 env w)) =
              (if (\<not> (isIdle w \<or> \<not> isWindowFocused w)
                   \<and> 0 < tickNow env - lastTick (getTrackingState w)
                   \<and> activeDomain env \<noteq> currentDomain (getTrackingState w))
                  \<and> classifyDomain (activeDomain env) = Some Unproductive then 0
               else unproductiveMsBuffer (getTrackingState w))"
    using assms
    by (auto simp add: tick_v1_def Let_def processTime_signed_out get_updateDomain_v1
          spread_def noUpdates_def)
  have s2: "totalProductiveMs (getTrackingState (tick_v2 env w))
              = totalProductiveMs (getTrackingState w)
          \<and> totalUnproductiveMs (getTrackingState (tick_v2 env w))
              = totalUnproductiveMs (getTrackingState w)
          \<and> consecutiveProductiveMs (getTrackingState (tick_v2 env w)) =
              (if (\<not> (isIdle w \<and> \<not> isWindowFocused w)
                   \<and> 0 < tickNow env - lastTick (getTrackingState w)
                   \<and> activeDomain env \<noteq> currentDomain (getTrackingState w))
                  \<and> classifyDomain (currentDomain (getTrackingState w)) = Some Productive
                  \<and> classifyDomain (activeDomain env) = Some Unproductive then 0
               else consecutiveProductiveMs (getTrackingState w))
          \<and> unproductiveMsBuffer (getTrackingState (tick_v2 env w)) =
              (if (\<not> (isIdle w \<and> \<not> isWindowFocused w)
                   \<and> 0 < tickNow env - lastTick (getTrackingState w)
                   \<and> activeDomain env \<noteq> currentDomain (getTrackingState w))
                  \<and> classifyDomain (currentDomain (getTrackingState w)) = Some Unproductive
                  \<and> classifyDomain (activeDomain env) = Some Productive then 0
               else unproductiveMsBuffer (getTrackingState w))"
    using assms
    by (auto simp add: tick_v2_def Let_def processTime_signed_out get_updateDomain_v2
          spread_def noUpdates_def)
  show ?thesis
    using t1 t2 s1 s2 unfolding Let_def by blast
qed

text \<open>
  Nobody signed in, one second after the last tick. On github.com, the stored
  domain: nothing is sent, the productive total stays at 5000 and the streak at
  40000. On youtube.com, a domain switch: the second variant zeroes the streak and
  keeps the buffer at 3000, the first keeps the streak and zeroes the buffer; no
  total moves.
\<close>

theorem tick_signed_out_accumulates_nothing_witness:
  "\<not> truthy (userId (getTrackingState (worldOf (exampleState\<lparr>userId := None\<rparr>))))
   \<and> effects (tick_v2 exampleEnv (worldOf (exampleState\<lparr>userId := None\<rparr>))) = []
   \<and> effects (tick_v1 exampleEnv (worldOf (exampleState\<lparr>userId := None\<rparr>))) = []
   \<and> totalProductiveMs
        (getTrackingState (tick_v2 exampleEnv (worldOf (exampleState\<lparr>userId := None\<rparr>))))
       = 5000
   \<and> totalProductiveMs
        (getTrackingState (tick_v1 exampleEnv (worldOf (exampleState\<lparr>userId := None\<rparr>))))
       = 5000
   \<and> consecutiveProductiveMs
        (getTrackingState (tick_v2 exampleEnv (worldOf (exampleState\<lparr>userId := None\<rparr>))))
       = 40000
   \<and> consecutiveProductiveMs
        (getTrackingState (tick_v1 exampleEnv (worldOf (exampleState\<lparr>userId := None\<rparr>))))
       = 40000
   \<and> consecutiveProductiveMs
        (getTrackingState (tick_v2 (exampleEnv\<lparr>activeDomain := Some ''youtube.com''\<rparr>)
           (worldOf (exampleState\<lparr>userId := None\<rparr>)))) = 0
   \<and> unproductiveMsBuffer
        (getTrackingState (tick_v2 (exampleEnv\<lparr>activeDomain := Some ''youtube.com''\<rparr>)
           (worldOf (exampleState\<lparr>userId := None\<rparr>)))) = 3000
   \<and> consecutiveProductiveMs
        (getTrackingState (tick_v1 (exampleEnv\<lparr>activeDomain := Some ''youtube.com''\<rparr>)
           (worldOf (exampleState\<lparr>userId := None\<rparr>)))) = 40000
   \<and> unproductiveMsBuffer
        (getTrackingState (tick_v1 (exampleEnv\<lparr>activeDomain := Some ''youtube.com''\<rparr>)
           (worldOf (exampleState\<lparr>userId := None\<rparr>)))) = 0
   \<and> totalUnproductiveMs
        (getTrackingState (tick_v2 (exampleEnv\<lparr>activeDomain := Some ''youtube.com''\<rparr>)
           (worldOf (exampleState\<lparr>userId := None\<rparr>)))) = 7000"
proof -
  have h: "\<not> truthy (userId (getTrackingState (worldOf (exampleState\<lparr>userId := None\<rparr>))))"
    by (simp add: truthy_def)
  show ?thesis
    using tick_signed_out_accumulates_nothing [OF h, of exampleEnv]
          tick_signed_out_accumulates_nothing
            [OF h, of "exampleEnv\<lparr>activeDomain := Some ''youtube.com''\<rparr>"]
          h
    by (simp add: Let_def exampleState_def exampleEnv_def classify_eval)
qed

text \<open>
  The same tick with and without a user. Signed in, the streak goes from 40000 to
  41000 and the productive total from 5000 to 6000; signed out, both stay.
\<close>

theorem tick_v2_signed_out_counterexample:
  "consecutiveProductiveMs (getTrackingState (tick_v2 exampleEnv exampleWorld)) = 41000
   \<and> totalProductiveMs (getTrackingState (tick_v2 exampleEnv exampleWorld)) = 6000
   \<and> consecutiveProductiveMs
        (getTrackingState (tick_v2 exampleEnv (worldOf (exampleState\<lparr>userId := None\<rparr>))))
       = 40000
   \<and> totalProductiveMs
        (getTrackingState (tick_v2 exampleEnv (worldOf (exampleState\<lparr>userId := None\<rparr>))))
       = 5000"
  by (simp add: tick_v2_def processTime_v2_def Let_def spread_def noUpdates_def
        example_eval classify_eval AI_CALL_TRIGGER_MS_def PRODUCTIVE_TRIGGER_MS_def)


section \<open>The call trigger\<close>

lemma processTime_v1_calls:
  "callRequests (processTime_v1 st e env w) = callRequests w +
     (if truthy (userId st) \<and> classifyDomain (currentDomain st) = Some Productive
         \<and> consecutiveProductiveMs st < 120000 \<and> 120000 \<le> consecutiveProductiveMs st + e
         \<and> \<not> (case lastCallTriggerTime (getTrackingState w) of
                  Some l \<Rightarrow> 0 < l \<and> callNow env - l < 300000 | None \<Rightarrow> False)
      then 1 else 0)"
proof (cases "truthy (userId st) \<and> classifyDomain (currentDomain st) = Some Productive")
  case True
  then obtain uid cur where f: "userId st = Some uid" "uid \<noteq> []"
      "currentDomain st = Some cur" "cur \<noteq> []"
    using classify_SomeD [of "currentDomain st" Productive] by (auto simp add: truthy_iff)
  show ?thesis
    using True f
    by (simp add: processTime_v1_def Let_def triggerAICall_v1_calls
          AI_CALL_TRIGGER_MS_def PRODUCTIVE_TRIGGER_MS_def)
next
  case False
  then show ?thesis
    by (auto simp add: processTime_v1_def Let_def truthy_iff UNPRODUCTIVE_BUFFER_MS_def
          split: option.splits)
qed

lemma processTime_v1_lastCall:
  "lastCallTriggerTime (getTrackingState (processTime_v1 st e env w)) =
     (if truthy (userId st) \<and> classifyDomain (currentDomain st) = Some Productive
         \<and> consecutiveProductiveMs st < 120000 \<and> 120000 \<le> consecutiveProductiveMs st + e
         \<and> \<not> (case lastCallTriggerTime (getTrackingState w) of
                  Some l \<Rightarrow> 0 < l \<and> callNow env - l < 300000 | None \<Rightarrow> False)
         \<and> fetchReply env = ResponseOk
      then Some (callNow env) else lastCallTriggerTime (getTrackingState w))"
proof (cases "truthy (userId st) \<and> classifyDomain (currentDomain st) = Some Productive")
  case True
  then obtain uid cur where f: "userId st = Some uid" "uid \<noteq> []"
      "currentDomain st = Some cur" "cur \<noteq> []"
    using classify_SomeD [of "currentDomain st" Productive] by (auto simp add: truthy_iff)
  show ?thesis
    using True f
    by (simp add: processTime_v1_def Let_def triggerAICall_v1_state spread_def noUpdates_def
          AI_CALL_TRIGGER_MS_def PRODUCTIVE_TRIGGER_MS_def)
next
  case False
  then show ?thesis
    by (auto simp add: processTime_v1_def Let_def truthy_iff UNPRODUCTIVE_BUFFER_MS_def
          spread_def noUpdates_def split: option.splits)
qed

lemma processTime_v1_crossing_resets:
  assumes "truthy (userId st)" "classifyDomain (currentDomain st) = Some Productive"
      and "120000 \<le> consecutiveProductiveMs st + e"
  shows "consecutiveProductiveMs (getTrackingState (processTime_v1 st e env w)) = 0"
proof -
  obtain uid cur where f: "userId st = Some uid" "uid \<noteq> []"
      "currentDomain st = Some cur" "cur \<noteq> []"
    using assms classify_SomeD [of "currentDomain st" Productive] by (auto simp add: truthy_iff)
  show ?thesis
    using assms f
    by (simp add: processTime_v1_def Let_def spread_def noUpdates_def
          AI_CALL_TRIGGER_MS_def PRODUCTIVE_TRIGGER_MS_def)
qed

lemma callRequests_updateDomain [simp]:
  "callRequests (updateDomain_v1 d t w) = callRequests w"
  "callRequests (updateDomain_v2 d t w) = callRequests w"
  by (simp_all add: updateDomain_v1_def updateDomain_v2_def Let_def split: option.splits)

lemma lastCall_updateDomain [simp]:
  "lastCallTriggerTime (getTrackingState (updateDomain_v1 d t w))
     = lastCallTriggerTime (getTrackingState w)"
  "lastCallTriggerTime (getTrackingState (updateDomain_v2 d t w))
     = lastCallTriggerTime (getTrackingState w)"
  by (simp_all add: get_updateDomain_v1 get_updateDomain_v2 Let_def spread_def noUpdates_def)

text \<open>One tick of the first variant, seen from the call log.\<close>

lemma tick_v1_call_step:
  "(callRequests (tick_v1 env w) = callRequests w
      \<and> lastCallTriggerTime (getTrackingState (tick_v1 env w))
          = lastCallTriggerTime (getTrackingState w))
   \<or> (callRequests (tick_v1 env w) = callRequests w + 1
      \<and> \<not> (case lastCallTriggerTime (getTrackingState w) of
              Some l \<Rightarrow> 0 < l \<and> callNow env - l < 300000 | None \<Rightarrow> False)
      \<and> lastCallTriggerTime (getTrackingState (tick_v1 env w))
          = (if fetchReply env = ResponseOk then Some (callNow env)
             else lastCallTriggerTime (getTrackingState w)))"
  by (simp add: tick_v1_def Let_def processTime_v1_calls processTime_v1_lastCall
        spread_def noUpdates_def)

text \<open>
  The invariant of a run: every request of the run comes at least 300000 ms after
  the call recorded before the run, and the log of the run respects the cooldown.
\<close>

lemma callLog_v1_spaced:
  assumes "sorted (map callNow envs)"
      and "\<forall>env \<in> set envs. 0 < callNow env"
      and "\<forall>l. lastCallTriggerTime (getTrackingState w) = Some l \<longrightarrow>
             (\<forall>env \<in> set envs. l \<le> callNow env)"
  shows "cooldownRespected (callLog_v1 envs w)
       \<and> (\<forall>l. lastCallTriggerTime (getTrackingState w) = Some l \<and> 0 < l \<longrightarrow>
            (\<forall>(t', r') \<in> set (callLog_v1 envs w). t' - l \<ge> 300000))"
  using assms
proof (induction envs arbitrary: w)
  case Nil
  then show ?case by simp
next
  case (Cons env envs)
  let ?w = "tick_v1 env w"
  have srt: "sorted (map callNow envs)" and le: "\<forall>e \<in> set envs. callNow env \<le> callNow e"
    using Cons.prems(1) by auto
  have pos: "\<forall>e \<in> set envs. 0 < callNow e" and pos0: "0 < callNow env"
    using Cons.prems(2) by auto
  have fut: "\<forall>l. lastCallTriggerTime (getTrackingState ?w) = Some l \<longrightarrow>
             (\<forall>e \<in> set envs. l \<le> callNow e)"
    using tick_v1_call_step [of env w] Cons.prems(3) le
    by (auto split: if_splits)
  note IH = Cons.IH [OF srt pos fut]
  from tick_v1_call_step [of env w] show ?case
  proof (elim disjE conjE)
    assume a: "callRequests ?w = callRequests w"
       and b: "lastCallTriggerTime (getTrackingState ?w)
                 = lastCallTriggerTime (getTrackingState w)"
    then show ?thesis using IH by simp
  next
    assume a: "callRequests ?w = callRequests w + 1"
       and c: "\<not> (case lastCallTriggerTime (getTrackingState w) of
              Some l \<Rightarrow> 0 < l \<and> callNow env - l < 300000 | None \<Rightarrow> False)"
       and b: "lastCallTriggerTime (getTrackingState ?w)
          = (if fetchReply env = ResponseOk then Some (callNow env)
             else lastCallTriggerTime (getTrackingState w))"
    have head: "\<forall>l. lastCallTriggerTime (getTrackingState w) = Some l \<and> 0 < l \<longrightarrow>
                  callNow env - l \<ge> 300000"
      using c by (auto split: option.splits)
    show ?thesis
    proof (cases "fetchReply env = ResponseOk")
      case True
      with b have l': "lastCallTriggerTime (getTrackingState ?w) = Some (callNow env)"
        by simp
      from IH l' pos0
      have later: "\<forall>(t', r') \<in> set (callLog_v1 envs ?w). t' - callNow env \<ge> 300000"
        by blast
      have "\<forall>l. lastCallTriggerTime (getTrackingState w) = Some l \<and> 0 < l \<longrightarrow>
            (\<forall>(t', r') \<in> set (callLog_v1 envs ?w). t' - l \<ge> 300000)"
        using later head by fastforce
      then show ?thesis using a IH later head by simp
    next
      case False
      with b have l': "lastCallTriggerTime (getTrackingState ?w)
                         = lastCallTriggerTime (getTrackingState w)" by simp
      show ?thesis using a IH l' head False by simp
    qed
  qed
qed

lemma processTime_v2_call_condition:
  "callRequests (processTime_v2 st e env w) = callRequests w +
     (if truthy (userId st) \<and> classifyDomain (currentDomain st) = Some Productive
         \<and> consecutiveProductiveMs st < 120000 \<and> 120000 \<le> consecutiveProductiveMs st + e
         \<and> twilioConfigured env \<and> truthy (userId (getTrackingState w))
         \<and> (\<exists>n. profileReply env = ProfileRow (Some n) \<and> n \<noteq> [] \<and> \<not> trimIsEmpty n)
      then 1 else 0)"
proof (cases "truthy (userId st) \<and> classifyDomain (currentDomain st) = Some Productive")
  case True
  then obtain uid cur where f: "userId st = Some uid" "uid \<noteq> []"
      "currentDomain st = Some cur" "cur \<noteq> []"
    using classify_SomeD [of "currentDomain st" Productive] by (auto simp add: truthy_iff)
  have t: "callRequests (triggerAICall_v2 c p r n w) = callRequests w +
     (if c \<and> truthy (userId (getTrackingState w))
         \<and> (\<exists>m. p = ProfileRow (Some m) \<and> m \<noteq> [] \<and> \<not> trimIsEmpty m) then 1 else 0)"
    for c p r n
    by (cases r)
       (auto simp add: triggerAICall_v2_def Let_def truthy_iff
          split: option.splits profile_result.splits)
  show ?thesis
    using True f
    by (simp add: processTime_v2_def Let_def t AI_CALL_TRIGGER_MS_def)
next
  case False
  then show ?thesis
    by (auto simp add: processTime_v2_def Let_def truthy_iff UNPRODUCTIVE_BUFFER_MS_def
          split: option.splits)
qed

text \<open>
  The first variant holds the request back while a call recorded less than 300000 ms
  ago stands in \<open>lastCallTriggerTime\<close> (line 161), so the log of any run of its ticks
  with positive clock readings that do not decrease respects the cooldown.
\<close>

lemma first_variant_respects_cooldown:
  assumes "sorted (map callNow envs)"
      and "\<forall>env \<in> set envs. 0 < callNow env"
      and "\<forall>l. lastCallTriggerTime (getTrackingState w) = Some l \<longrightarrow>
             (\<forall>env \<in> set envs. l \<le> callNow env)"
  shows "cooldownRespected (callLog_v1 envs w)"
  using callLog_v1_spaced [OF assms] by simp

lemma first_variant_example_run:
  "callLog_v1 exampleRun exampleWorld = [(1100000, ResponseOk), (1500000, ResponseOk)]"
  by (simp add: exampleRun_def exampleWorld_def tick_v1_def processTime_v1_def
        triggerAICall_v1_def Let_def spread_def noUpdates_def recordProductiveTrigger_def
        exampleState_def exampleEnv_def classify_eval
        AI_CALL_TRIGGER_MS_def PRODUCTIVE_TRIGGER_MS_def AI_CALL_COOLDOWN_MS_def)

text \<open>The call log of the two minutes of browsing, second variant, starting half a
  second below the call threshold with no call recorded.\<close>

lemma streakRun_log:
  "callLog_v2 streakRun (worldOf (exampleState\<lparr>consecutiveProductiveMs := 119500\<rparr>))
     = [(1001000, ResponseOk), (1122000, ResponseOk)]"
  by (simp add: streakRun_def tickAt_def tick_v2_def processTime_v2_def
        updateDomain_v2_def triggerAICall_v2_def Let_def spread_def noUpdates_def
        recordProductiveTrigger_def recordUnproductiveTime_def
        exampleState_def classify_eval trimIsEmpty_def isWhiteSpace_def
        AI_CALL_TRIGGER_MS_def PRODUCTIVE_TRIGGER_MS_def AI_CALL_COOLDOWN_MS_def
        UNPRODUCTIVE_BUFFER_MS_def)

lemma streakRun_breaks_cooldown:
  "\<not> cooldownRespected
       (callLog_v2 streakRun (worldOf (exampleState\<lparr>consecutiveProductiveMs := 119500\<rparr>)))"
  by (simp add: streakRun_log)

text \<open>
  C5. The call is to fire at the upward crossing of 120000 ms only when the cooldown
  of 300000 ms has elapsed, and never twice within one cooldown window. The second
  variant of \<^verbatim>\<open>triggerAICall\<close> (lines 655 to 789) records \<open>lastCallTriggerTime\<close>
  but never reads it, and \<^verbatim>\<open>AI_CALL_COOLDOWN_MS\<close> is not used by it. On the two
  minutes of browsing the streak crosses 120000 at the clock reading 1001000, is set
  to 0 by the visit to youtube.com, and crosses again at 1122000: both crossings
  send a request and both are accepted, 121 s apart.
\<close>

theorem tick_v2_second_call_within_cooldown:
  "callLog_v2 streakRun (worldOf (exampleState\<lparr>consecutiveProductiveMs := 119500\<rparr>))
     = [(1001000, ResponseOk), (1122000, ResponseOk)]
   \<and> 1122000 - 1001000 < AI_CALL_COOLDOWN_MS"
  by (simp add: streakRun_log AI_CALL_COOLDOWN_MS_def)

end
